theory Spec2Isabelle
  imports Main
begin

section \<open>Python values, exceptions and strings\<close>

text \<open>
  Values decoded from a JSON body (\<open>json.loads\<close>) and the Python values the handlers
  pass around.  Floating-point numbers are left out; a dictionary is an association
  list in which the first binding of a key is the one that counts.
\<close>

datatype json =
    JNull
  | JBool bool
  | JInt int
  | JStr string
  | JList "json list"
  | JDict "(string \<times> json) list"

text \<open>
  Exceptions are values: the class and the text \<open>str(e)\<close> gives.  A computation
  that may raise returns \<open>exn + 'a\<close>, with \<open>Inl\<close> the raised exception.
  \<open>Exception\<close> is the bare \<open>Exception(msg)\<close> the code raises itself,
  \<open>RequestException\<close> is whatever the HTTP library raises, and the text carried by
  an interpreter error (\<open>AttributeError\<close>, \<open>TypeError\<close>, ...) is a short
  stand-in for the interpreter's wording.
\<close>

datatype exn =
    AttributeError string
  | TypeError string
  | ValueError string
  | IndexError string
  | KeyError string
  | OverflowError string
  | ValidationError string
  | DoesNotExist string
  | MultipleObjectsReturned string
  | IntegrityError string
  | RequestException string
  | JSONDecodeError string
  | Exception string

fun str_of_exn :: "exn \<Rightarrow> string" where
  "str_of_exn (AttributeError m) = m"
| "str_of_exn (TypeError m) = m"
| "str_of_exn (ValueError m) = m"
| "str_of_exn (IndexError m) = m"
| "str_of_exn (KeyError m) = m"
| "str_of_exn (OverflowError m) = m"
| "str_of_exn (ValidationError m) = m"
| "str_of_exn (DoesNotExist m) = m"
| "str_of_exn (MultipleObjectsReturned m) = m"
| "str_of_exn (IntegrityError m) = m"
| "str_of_exn (RequestException m) = m"
| "str_of_exn (JSONDecodeError m) = m"
| "str_of_exn (Exception m) = m"

text \<open>
  A \<open>char\<close> is read as a code point below 256.  On that range Python's
  \<open>str.isdigit\<close> holds for \<open>0\<close> to \<open>9\<close> and for the superscript digits
  U+00B2, U+00B3 and U+00B9.
\<close>

definition isdigit :: "char \<Rightarrow> bool" where
  "isdigit c =
     (let n = (of_char c :: nat)
      in (48 \<le> n \<and> n \<le> 57) \<or> n = 178 \<or> n = 179 \<or> n = 185)"

text \<open>\<open>value.isdigit()\<close> on a whole string: false on the empty string.\<close>

definition str_isdigit :: "string \<Rightarrow> bool" where
  "str_isdigit s = (s \<noteq> [] \<and> list_all isdigit s)"

subsection \<open>Operations on decoded values\<close>

text \<open>Truth value testing, as \<open>if x\<close>, \<open>x or y\<close> and \<open>all([...])\<close> apply it.\<close>

fun truthy :: "json \<Rightarrow> bool" where
  "truthy JNull = False"
| "truthy (JBool b) = b"
| "truthy (JInt i) = (i \<noteq> 0)"
| "truthy (JStr s) = (s \<noteq> [])"
| "truthy (JList xs) = (xs \<noteq> [])"
| "truthy (JDict kvs) = (kvs \<noteq> [])"

text \<open>\<open>d.get(k, default)\<close> on a dictionary.\<close>

definition dict_get :: "(string \<times> json) list \<Rightarrow> string \<Rightarrow> json \<Rightarrow> json" where
  "dict_get kvs k dflt = (case map_of kvs k of None \<Rightarrow> dflt | Some v \<Rightarrow> v)"

text \<open>
  \<open>x.get(k, default)\<close> on any value: only a dictionary has the method, everything
  else raises \<open>AttributeError\<close>.
\<close>

fun py_get :: "json \<Rightarrow> string \<Rightarrow> json \<Rightarrow> exn + json" where
  "py_get (JDict kvs) k dflt = Inr (dict_get kvs k dflt)"
| "py_get _ k dflt = Inl (AttributeError ''object has no attribute get'')"

text \<open>\<open>d[k] = v\<close>: the value of a present key is replaced, a new key goes last.\<close>

fun dict_set :: "(string \<times> json) list \<Rightarrow> string \<Rightarrow> json \<Rightarrow> (string \<times> json) list" where
  "dict_set [] k v = [(k, v)]"
| "dict_set ((k', v') # kvs) k v =
     (if k' = k then (k, v) # kvs else (k', v') # dict_set kvs k v)"

text \<open>\<open>x[0]\<close>, as the official client applies it to the \<open>messages\<close> entry.\<close>

fun py_index0 :: "json \<Rightarrow> exn + json" where
  "py_index0 (JList []) = Inl (IndexError ''list index out of range'')"
| "py_index0 (JList (x # xs)) = Inr x"
| "py_index0 (JStr []) = Inl (IndexError ''string index out of range'')"
| "py_index0 (JStr (c # cs)) = Inr (JStr [c])"
| "py_index0 (JDict kvs) = Inl (KeyError ''0'')"
| "py_index0 _ = Inl (TypeError ''object is not subscriptable'')"

text \<open>Decimal rendering of numbers, as \<open>str\<close> and f-strings give it.\<close>

fun str_of_nat :: "nat \<Rightarrow> string" where
  "str_of_nat n =
     (if n < 10 then [char_of (48 + n)]
      else str_of_nat (n div 10) @ [char_of (48 + n mod 10)])"

declare str_of_nat.simps [simp del]

definition str_of_int :: "int \<Rightarrow> string" where
  "str_of_int i = (if i < 0 then CHR ''-'' # str_of_nat (nat (- i)) else str_of_nat (nat i))"

fun join :: "string \<Rightarrow> string list \<Rightarrow> string" where
  "join sep [] = []"
| "join sep [x] = x"
| "join sep (x # y # ys) = x @ sep @ join sep (y # ys)"

text \<open>
  \<open>repr\<close> and \<open>str\<close> of a decoded value.  A string inside a list or dictionary is
  put between single quotes as it is: the escapes \<open>repr\<close> would add for quotes and
  control characters are not reproduced.
\<close>

fun py_repr :: "json \<Rightarrow> string" where
  "py_repr JNull = ''None''"
| "py_repr (JBool b) = (if b then ''True'' else ''False'')"
| "py_repr (JInt i) = str_of_int i"
| "py_repr (JStr s) = [CHR 0x27] @ s @ [CHR 0x27]"
| "py_repr (JList xs) = ''['' @ join '', '' (map py_repr xs) @ '']''"
| "py_repr (JDict kvs) =
     ''{'' @ join '', '' (map (\<lambda>kv. [CHR 0x27] @ fst kv @ [CHR 0x27] @ '': '' @ py_repr (snd kv)) kvs)
        @ ''}''"

fun py_str :: "json \<Rightarrow> string" where
  "py_str (JStr s) = s"
| "py_str j = py_repr j"

text \<open>
  What a \<open>CharField\<close> stores for an assigned value (\<open>CharField.to_python\<close>):
  \<open>None\<close> stays \<open>None\<close>, a string stays itself, anything else is stored as its \<open>str\<close>.
\<close>

fun char_value :: "json \<Rightarrow> string option" where
  "char_value JNull = None"
| "char_value j = Some (py_str j)"

text \<open>\<open>s.rstrip('/')\<close>.\<close>

definition rstrip_slash :: "string \<Rightarrow> string" where
  "rstrip_slash s = rev (dropWhile (\<lambda>c. c = CHR ''/'') (rev s))"

text \<open>\<open>'@' in s\<close> is \<open>CHR ''@'' \<in> set s\<close>; \<open>s.replace('+', '').replace(' ', '')\<close>:\<close>

definition strip_plus_space :: "string \<Rightarrow> string" where
  "strip_plus_space s = filter (\<lambda>c. c \<noteq> CHR ''+'' \<and> c \<noteq> CHR '' '') s"

text \<open>\<open>s.encode()\<close> (UTF-8) on code points below 256, and \<open>base64.b64encode\<close>.\<close>

definition utf8_encode :: "string \<Rightarrow> nat list" where
  "utf8_encode s =
     concat (map (\<lambda>c. let n = (of_char c :: nat)
                      in if n < 128 then [n] else [192 + n div 64, 128 + n mod 64]) s)"

definition b64_char :: "nat \<Rightarrow> char" where
  "b64_char n =
     (''ABCDEFGHIJKLMNOPQRSTUVWXYZabcdefghijklmnopqrstuvwxyz0123456789+/'') ! n"

fun b64encode :: "nat list \<Rightarrow> string" where
  "b64encode [] = []"
| "b64encode [a] = [b64_char (a div 4), b64_char ((a mod 4) * 16), CHR ''='', CHR ''='']"
| "b64encode [a, b] =
     [b64_char (a div 4), b64_char ((a mod 4) * 16 + b div 16), b64_char ((b mod 16) * 4),
      CHR ''='']"
| "b64encode (a # b # c # bs) =
     [b64_char (a div 4), b64_char ((a mod 4) * 16 + b div 16),
      b64_char ((b mod 16) * 4 + c div 64), b64_char (c mod 64)] @ b64encode bs"


section \<open>models/contact.py\<close>

definition validate_phone_number :: "string \<Rightarrow> exn + unit" where
  "validate_phone_number v =
     (if \<not> str_isdigit v then
        Inl (ValidationError ''Phone number must contain only digits'')
      else if length v < 7 \<or> length v > 15 then
        Inl (ValidationError ''Phone number must be between 7 and 15 digits'')
      else if length v < 3 then
        Inl (ValidationError ''Phone number must include country code'')
      else Inr ())"

text \<open>
  The argument is an optional string: \<open>None\<close> and the empty string are the falsy
  inputs that \<open>if not phone_number\<close> hands back as they are.
\<close>

definition normalize_phone_number :: "string option \<Rightarrow> string option" where
  "normalize_phone_number phone_number =
     (case phone_number of
        None \<Rightarrow> None
      | Some s \<Rightarrow> if s = [] then Some s else Some (filter isdigit s))"

record contact =
  contact_pk :: "nat option"
  contact_name :: string
  contact_phone_number :: "string option"
  whatsapp_chat_id :: "string option"

text \<open>
  \<open>Contact.objects.get(phone_number=v)\<close> over the rows of the contact table.
\<close>

definition Contact_objects_get :: "contact list \<Rightarrow> string option \<Rightarrow> exn + contact" where
  "Contact_objects_get rows v =
     (case filter (\<lambda>r. contact_phone_number r = v) rows of
        [] \<Rightarrow> Inl (DoesNotExist ''Contact matching query does not exist.'')
      | [r] \<Rightarrow> Inr r
      | _ \<Rightarrow> Inl (MultipleObjectsReturned ''get() returned more than one Contact''))"

definition fresh_contact_pk :: "contact list \<Rightarrow> nat" where
  "fresh_contact_pk rows = Suc (fold max (map (\<lambda>r. case_option 0 id (contact_pk r)) rows) 0)"

text \<open>
  The framework's \<open>Model.save\<close> for a contact: it runs no validator; the column is
  NOT NULL and unique, so a missing number or a number another row holds is an
  \<open>IntegrityError\<close>.  A contact without primary key is inserted under a fresh one,
  otherwise its row is replaced.  The saved instance is returned with the new table.
\<close>

definition Model_save_contact :: "contact list \<Rightarrow> contact \<Rightarrow> exn + (contact \<times> contact list)" where
  "Model_save_contact rows c =
     (if contact_phone_number c = None then
        Inl (IntegrityError ''NOT NULL constraint failed: contact.phone_number'')
      else if list_ex (\<lambda>r. contact_phone_number r = contact_phone_number c
                              \<and> contact_pk r \<noteq> contact_pk c) rows
      then Inl (IntegrityError ''UNIQUE constraint failed: contact.phone_number'')
      else (case contact_pk c of
              None \<Rightarrow>
                (let c' = c\<lparr>contact_pk := Some (fresh_contact_pk rows)\<rparr>
                 in Inr (c', rows @ [c']))
            | Some k \<Rightarrow>
                if list_ex (\<lambda>r. contact_pk r = Some k) rows
                then Inr (c, map (\<lambda>r. if contact_pk r = Some k then c else r) rows)
                else Inr (c, rows @ [c])))"

definition Contact_save :: "contact list \<Rightarrow> contact \<Rightarrow> exn + (contact \<times> contact list)" where
  "Contact_save rows self =
     Model_save_contact rows
       (self\<lparr>contact_phone_number := normalize_phone_number (contact_phone_number self)\<rparr>)"

definition find_by_phone :: "contact list \<Rightarrow> string option \<Rightarrow> exn + contact option" where
  "find_by_phone rows phone_number =
     (let normalized = normalize_phone_number phone_number
      in case Contact_objects_get rows normalized of
           Inr c \<Rightarrow> Inr (Some c)
         | Inl (DoesNotExist _) \<Rightarrow> Inr None
         | Inl e \<Rightarrow> Inl e)"


section \<open>The entity store, the log and HTTP\<close>

record template =
  template_pk :: nat
  tpl_name :: string

record phone_number =
  pn_pk :: nat
  display_name :: string
  pn_phone_number :: string
  api_type :: string
  phone_number_id :: "string option"
  business_account_id :: string
  access_token :: string
  waha_endpoint :: "string option"
  waha_username :: "string option"
  waha_password :: "string option"
  waha_session :: string
  is_active :: bool
  is_configured :: bool
  verify_token :: string
  webhook_token :: string

text \<open>
  A message row.  \<open>msg_phone_number\<close> and \<open>msg_contact\<close> are the foreign keys,
  \<open>msg_template\<close> is the related template when there is one, \<open>media_file_url\<close> is
  the URL the storage gives the attached file (\<open>None\<close> when no file is attached), and
  the two time stamps are seconds since the epoch.
\<close>

record message =
  msg_pk :: nat
  msg_phone_number :: nat
  msg_contact :: "nat option"
  msg_template :: "template option"
  template_variables :: json
  message_id :: string
  conversation_id :: "string option"
  from_number :: string
  to_number :: string
  direction :: string
  message_type :: string
  content :: "string option"
  media_file_url :: "string option"
  media_id :: "string option"
  metadata :: json
  status :: string
  raw_message :: json
  delivered_at :: "int option"
  read_at :: "int option"
  error_code :: "string option"
  error_message :: "string option"

record http_request =
  req_method :: string
  req_url :: string
  req_headers :: "(string \<times> string) list"
  req_json :: "json option"

text \<open>
  A response: \<open>resp_json\<close> is what \<open>response.json()\<close> returns or raises,
  \<open>resp_text\<close> the body.
\<close>

record http_response =
  status_code :: nat
  resp_text :: string
  resp_json :: "exn + json"

text \<open>
  The network answers a request with a response or with an exception of the HTTP
  library (a transport failure).
\<close>

type_synonym http = "http_request \<Rightarrow> exn + http_response"

datatype log_level = INFO | WARNING | ERROR

text \<open>
  The state the code acts on: the rows of the contact and message tables, the HTTP
  requests issued so far, and the log.  A log entry is the level and the text of the
  format string up to its first placeholder; \<open>logger.exception\<close> logs at \<open>ERROR\<close>.
\<close>

record world =
  contacts :: "contact list"
  messages :: "message list"
  http_log :: "http_request list"
  logs :: "(log_level \<times> string) list"

definition logger :: "log_level \<Rightarrow> string \<Rightarrow> world \<Rightarrow> world" where
  "logger lvl msg w = w\<lparr>logs := logs w @ [(lvl, msg)]\<rparr>"

text \<open>\<open>requests.get\<close>, \<open>requests.post\<close>, \<open>requests.put\<close>: the call is recorded.\<close>

definition requests_call :: "http \<Rightarrow> http_request \<Rightarrow> world \<Rightarrow> (exn + http_response) \<times> world" where
  "requests_call net req w = (net req, w\<lparr>http_log := http_log w @ [req]\<rparr>)"


section \<open>services/waha.py\<close>

record waha_service =
  ws_endpoint :: string
  ws_username :: "string option"
  ws_password :: "string option"
  ws_session :: string

text \<open>An optional string inside an f-string: \<open>None\<close> prints as \<open>None\<close>.\<close>

definition fmt_opt :: "string option \<Rightarrow> string" where
  "fmt_opt x = (case x of None \<Rightarrow> ''None'' | Some s \<Rightarrow> s)"

definition WAHAService_init ::
  "string option \<Rightarrow> string option \<Rightarrow> string option \<Rightarrow> string \<Rightarrow> exn + waha_service" where
  "WAHAService_init endpoint username password session =
     (case endpoint of
        None \<Rightarrow> Inl (AttributeError ''NoneType object has no attribute rstrip'')
      | Some e \<Rightarrow>
          Inr \<lparr>ws_endpoint = rstrip_slash e, ws_username = username,
               ws_password = password, ws_session = session\<rparr>)"

definition get_auth_header :: "waha_service \<Rightarrow> string" where
  "get_auth_header self =
     (let auth_string = fmt_opt (ws_username self) @ '':'' @ fmt_opt (ws_password self);
          encoded_auth = b64encode (utf8_encode auth_string)
      in ''Basic '' @ encoded_auth)"

definition failure_result :: "string \<Rightarrow> json" where
  "failure_result reason = JDict [(''success'', JBool False), (''error'', JStr reason)]"

text \<open>
  \<open>_make_request\<close>.  The \<open>try\<close> block is \<open>attempt\<close>: an exception raised inside it
  (by the HTTP library, by \<open>response.json()\<close>, or the \<open>ValueError\<close> for an unknown
  method) is turned by the \<open>except\<close> clause into the failure dictionary.
\<close>

definition make_request ::
  "http \<Rightarrow> waha_service \<Rightarrow> string \<Rightarrow> string \<Rightarrow> json option \<Rightarrow> world \<Rightarrow> (exn + json) \<times> world" where
  "make_request net self endpoint method data w =
     (let url = ws_endpoint self @ ''/api/'' @ endpoint;
          headers = [(''Content-Type'', ''application/json''),
                     (''Authorization'', get_auth_header self)];
          attempt =
            (case (if method = ''GET'' then
                     requests_call net \<lparr>req_method = ''GET'', req_url = url,
                       req_headers = headers, req_json = None\<rparr> w
                   else if method = ''POST'' then
                     requests_call net \<lparr>req_method = ''POST'', req_url = url,
                       req_headers = headers, req_json = data\<rparr> w
                   else if method = ''PUT'' then
                     requests_call net \<lparr>req_method = ''PUT'', req_url = url,
                       req_headers = headers, req_json = data\<rparr> w
                   else (Inl (ValueError (''Unsupported HTTP method: '' @ method)), w)) of
               (Inl e, w1) \<Rightarrow> (Inl e, w1)
             | (Inr response, w1) \<Rightarrow>
                 if status_code response = 200 \<or> status_code response = 201 then
                   (resp_json response, w1)
                 else
                   (Inr (failure_result (''HTTP '' @ str_of_nat (status_code response) @ '': ''
                                          @ resp_text response)),
                    logger ERROR ''WAHA API error: '' w1))
      in case attempt of
           (Inl e, w2) \<Rightarrow>
             (Inr (failure_result (str_of_exn e)),
              logger ERROR ''Error making WAHA API request: '' w2)
         | (Inr j, w2) \<Rightarrow> (Inr j, w2))"

definition format_chat_id :: "string \<Rightarrow> string" where
  "format_chat_id chat_id =
     (if chat_id \<noteq> [] \<and> CHR ''@'' \<notin> set chat_id
      then strip_plus_space chat_id @ ''@c.us'' else chat_id)"

definition send_text ::
  "http \<Rightarrow> waha_service \<Rightarrow> string \<Rightarrow> string \<Rightarrow> bool \<Rightarrow> world \<Rightarrow> (exn + json) \<times> world" where
  "send_text net self chat_id txt link_preview w =
     (let data = JDict [(''chatId'', JStr (format_chat_id chat_id)), (''text'', JStr txt),
                        (''linkPreview'', JBool link_preview), (''session'', JStr (ws_session self))]
      in make_request net self ''sendText'' ''POST'' (Some data) w)"

definition send_image ::
  "http \<Rightarrow> waha_service \<Rightarrow> string \<Rightarrow> string \<Rightarrow> string option \<Rightarrow> world \<Rightarrow> (exn + json) \<times> world" where
  "send_image net self chat_id image_url caption w =
     (let data = JDict [(''chatId'', JStr (format_chat_id chat_id)), (''image'', JStr image_url),
                        (''caption'', JStr (case caption of None \<Rightarrow> [] | Some c \<Rightarrow> c)),
                        (''session'', JStr (ws_session self))]
      in make_request net self ''sendImage'' ''POST'' (Some data) w)"

definition send_document ::
  "http \<Rightarrow> waha_service \<Rightarrow> string \<Rightarrow> string \<Rightarrow> string option \<Rightarrow> world \<Rightarrow> (exn + json) \<times> world" where
  "send_document net self chat_id document_url filename w =
     (let data = JDict [(''chatId'', JStr (format_chat_id chat_id)),
                        (''document'', JStr document_url),
                        (''filename'', JStr (case filename of None \<Rightarrow> ''document''
                                             | Some f \<Rightarrow> if f = [] then ''document'' else f)),
                        (''session'', JStr (ws_session self))]
      in make_request net self ''sendDocument'' ''POST'' (Some data) w)"

definition send_video ::
  "http \<Rightarrow> waha_service \<Rightarrow> string \<Rightarrow> string \<Rightarrow> string option \<Rightarrow> world \<Rightarrow> (exn + json) \<times> world" where
  "send_video net self chat_id video_url caption w =
     (let data = JDict [(''chatId'', JStr (format_chat_id chat_id)), (''video'', JStr video_url),
                        (''caption'', JStr (case caption of None \<Rightarrow> [] | Some c \<Rightarrow> c)),
                        (''session'', JStr (ws_session self))]
      in make_request net self ''sendVideo'' ''POST'' (Some data) w)"

definition send_audio ::
  "http \<Rightarrow> waha_service \<Rightarrow> string \<Rightarrow> string \<Rightarrow> world \<Rightarrow> (exn + json) \<times> world" where
  "send_audio net self chat_id audio_url w =
     (let data = JDict [(''chatId'', JStr (format_chat_id chat_id)), (''audio'', JStr audio_url),
                        (''session'', JStr (ws_session self))]
      in make_request net self ''sendAudio'' ''POST'' (Some data) w)"

definition configure_webhooks ::
  "http \<Rightarrow> waha_service \<Rightarrow> string \<Rightarrow> string list option \<Rightarrow> world \<Rightarrow> (exn + json) \<times> world" where
  "configure_webhooks net self webhook_url events w =
     (let events' = (case events of None \<Rightarrow> [''message''] | Some es \<Rightarrow> es);
          data = JDict [(''config'',
                   JDict [(''webhooks'',
                     JList [JDict [(''url'', JStr webhook_url),
                                   (''events'', JList (map JStr events'))]])])]
      in make_request net self (''sessions/'' @ ws_session self) ''PUT'' (Some data) w)"


section \<open>models/phone\_number.py\<close>

definition bind_exn :: "exn + 'a \<Rightarrow> ('a \<Rightarrow> exn + 'b) \<Rightarrow> exn + 'b" where
  "bind_exn r f = (case r of Inl e \<Rightarrow> Inl e | Inr x \<Rightarrow> f x)"

text \<open>Truth value of an optional string: \<open>None\<close> and the empty string are falsy.\<close>

definition opt_truthy :: "string option \<Rightarrow> bool" where
  "opt_truthy x = (case x of None \<Rightarrow> False | Some s \<Rightarrow> s \<noteq> [])"

text \<open>
  \<open>instance.save(update_fields=[...])\<close>: the named attributes of the instance are
  written to the row with its primary key; the other rows and columns stay.
\<close>

definition copy_field :: "message \<Rightarrow> string \<Rightarrow> message \<Rightarrow> message" where
  "copy_field inst f row =
     (if f = ''status'' then row\<lparr>status := status inst\<rparr>
      else if f = ''message_id'' then row\<lparr>message_id := message_id inst\<rparr>
      else if f = ''metadata'' then row\<lparr>metadata := metadata inst\<rparr>
      else if f = ''delivered_at'' then row\<lparr>delivered_at := delivered_at inst\<rparr>
      else if f = ''read_at'' then row\<lparr>read_at := read_at inst\<rparr>
      else if f = ''conversation_id'' then row\<lparr>conversation_id := conversation_id inst\<rparr>
      else if f = ''error_code'' then row\<lparr>error_code := error_code inst\<rparr>
      else if f = ''error_message'' then row\<lparr>error_message := error_message inst\<rparr>
      else row)"

definition save_update_fields :: "message \<Rightarrow> string list \<Rightarrow> world \<Rightarrow> world" where
  "save_update_fields inst update_fields w =
     w\<lparr>messages :=
         map (\<lambda>row. if msg_pk row = msg_pk inst
                    then fold (copy_field inst) update_fields row else row)
           (messages w)\<rparr>"

text \<open>
  The two lines \<open>instance.status = 'failed'\<close>, \<open>instance.save(update_fields=['status'])\<close>,
  under the guard \<open>if instance:\<close> where the source has it.
\<close>

definition mark_failed :: "message \<Rightarrow> world \<Rightarrow> message \<times> world" where
  "mark_failed inst w =
     (let inst' = inst\<lparr>status := ''failed''\<rparr>
      in (inst', save_update_fields inst' [''status''] w))"

definition mark_failed_opt :: "message option \<Rightarrow> world \<Rightarrow> message option \<times> world" where
  "mark_failed_opt instance w =
     (case instance of
        None \<Rightarrow> (None, w)
      | Some inst \<Rightarrow> (let (inst', w') = mark_failed inst w in (Some inst', w')))"

text \<open>
  The lines \<open>instance.message_id = v\<close>, \<open>instance.status = 'sent'\<close>,
  \<open>instance.save(update_fields=['message_id', 'status'])\<close>.  The column is NOT NULL and
  unique: storing \<open>None\<close>, or an id another row holds, is an \<open>IntegrityError\<close> raised by
  \<open>save\<close> (the instance then keeps the attributes it had, but for the status).
\<close>

definition mark_sent :: "json \<Rightarrow> message \<Rightarrow> world \<Rightarrow> (exn + unit) \<times> message \<times> world" where
  "mark_sent v inst w =
     (case char_value v of
        None \<Rightarrow>
          (Inl (IntegrityError ''NOT NULL constraint failed: message.message_id''),
           inst\<lparr>status := ''sent''\<rparr>, w)
      | Some mid \<Rightarrow>
          (let inst' = inst\<lparr>message_id := mid, status := ''sent''\<rparr>
           in if list_ex (\<lambda>row. message_id row = mid \<and> msg_pk row \<noteq> msg_pk inst) (messages w)
              then (Inl (IntegrityError ''UNIQUE constraint failed: message.message_id''), inst', w)
              else (Inr (), inst', save_update_fields inst' [''message_id'', ''status''] w)))"

definition is_waha_api :: "phone_number \<Rightarrow> bool" where
  "is_waha_api self = (api_type self = ''waha'')"

definition is_official_api :: "phone_number \<Rightarrow> bool" where
  "is_official_api self = (api_type self = ''official'')"

text \<open>\<open>url.split("/")[-1]\<close>: what follows the last slash.\<close>

definition after_last_slash :: "string \<Rightarrow> string" where
  "after_last_slash url = rev (takeWhile (\<lambda>c. c \<noteq> CHR ''/'') (rev url))"

text \<open>
  The payload that \<open>_send_official_api_message\<close> builds before its \<open>try\<close> block.
  \<open>**(template_params or {})\<close> needs a mapping and is a \<open>TypeError\<close> otherwise.
\<close>

definition official_payload ::
  "string \<Rightarrow> string option \<Rightarrow> string option \<Rightarrow> json \<Rightarrow> string option \<Rightarrow> string option
     \<Rightarrow> exn + json" where
  "official_payload to_number' message_text template_name template_params media_url media_type =
     (let payload = [(''messaging_product'', JStr ''whatsapp''),
                     (''recipient_type'', JStr ''individual''),
                     (''to'', JStr to_number')]
      in if opt_truthy message_text then
           Inr (JDict (dict_set (dict_set payload ''type'' (JStr ''text''))
                  ''text'' (JDict [(''body'', JStr (the message_text))])))
         else if opt_truthy template_name then
           (case (if truthy template_params then template_params else JDict []) of
              JDict params \<Rightarrow>
                (let template_data =
                       fold (\<lambda>kv d. dict_set d (fst kv) (snd kv)) params
                         [(''name'', JStr (the template_name))]
                 in Inr (JDict (dict_set (dict_set payload ''type'' (JStr ''template''))
                           ''template'' (JDict template_data))))
            | _ \<Rightarrow> Inl (TypeError ''object is not a mapping''))
         else if opt_truthy media_url \<and> opt_truthy media_type then
           (let mt = the media_type; url = the media_url;
                media_payload = [(''link'', JStr url)];
                media_payload =
                  (if mt \<in> set [''image'', ''video'', ''document''] \<and> opt_truthy message_text
                   then dict_set media_payload ''caption'' (JStr (the message_text))
                   else media_payload);
                media_payload =
                  (if mt = ''document'' \<and> opt_truthy media_url
                   then dict_set media_payload ''filename'' (JStr (after_last_slash url))
                   else media_payload)
            in Inr (JDict (dict_set (dict_set payload ''type'' (JStr mt)) mt (JDict media_payload))))
         else Inl (ValueError ''Either message_text, template_name, or media_url must be provided''))"

text \<open>
  \<open>response_data.get('messages', [{}])[0].get('id', '')\<close> and
  \<open>response_data.get('error', {}).get('message', 'Unknown error')\<close>.
\<close>

definition response_message_id :: "json \<Rightarrow> exn + json" where
  "response_message_id response_data =
     bind_exn (py_get response_data ''messages'' (JList [JDict []]))
       (\<lambda>ms. bind_exn (py_index0 ms) (\<lambda>m. py_get m ''id'' (JStr [])))"

definition response_error_message :: "json \<Rightarrow> exn + json" where
  "response_error_message response_data =
     bind_exn (py_get response_data ''error'' (JDict []))
       (\<lambda>err. py_get err ''message'' (JStr ''Unknown error''))"

text \<open>
  \<open>_send_official_api_message\<close>.  \<open>WHATSAPP_API_URL\<close> is the setting of that name.
  \<open>attempt\<close> is the \<open>try\<close> block; its \<open>except Exception\<close> clause logs, marks the
  instance failed and raises the exception again.
\<close>

definition send_official_api_message ::
  "http \<Rightarrow> string \<Rightarrow> phone_number \<Rightarrow> string \<Rightarrow> string option \<Rightarrow> string option \<Rightarrow> json
     \<Rightarrow> string option \<Rightarrow> string option \<Rightarrow> message option \<Rightarrow> world
     \<Rightarrow> (exn + json) \<times> message option \<times> world" where
  "send_official_api_message net WHATSAPP_API_URL self to_number' message_text template_name
       template_params media_url media_type instance w =
     (if access_token self = [] then
        (Inl (ValueError ''Access token is required to send messages''), instance, w)
      else
        let api_url = WHATSAPP_API_URL @ ''/'' @ fmt_opt (phone_number_id self) @ ''/messages'';
            headers = [(''Authorization'', ''Bearer '' @ access_token self),
                       (''Content-Type'', ''application/json'')]
        in case official_payload to_number' message_text template_name template_params
                  media_url media_type of
             Inl e \<Rightarrow> (Inl e, instance, w)
           | Inr payload \<Rightarrow>
               (let attempt =
                  (case requests_call net \<lparr>req_method = ''POST'', req_url = api_url,
                          req_headers = headers, req_json = Some payload\<rparr> w of
                     (Inl e, w1) \<Rightarrow> (Inl e, instance, w1)
                   | (Inr response, w1) \<Rightarrow>
                       (case resp_json response of
                          Inl e \<Rightarrow> (Inl e, instance, w1)
                        | Inr response_data \<Rightarrow>
                            if status_code response = 200 then
                              (case instance of
                                 None \<Rightarrow> (Inr response_data, None, w1)
                               | Some inst \<Rightarrow>
                                   (case response_message_id response_data of
                                      Inl e \<Rightarrow> (Inl e, instance, w1)
                                    | Inr v \<Rightarrow>
                                        (case mark_sent v inst w1 of
                                           (Inl e, inst', w2) \<Rightarrow> (Inl e, Some inst', w2)
                                         | (Inr _, inst', w2) \<Rightarrow>
                                             (Inr response_data, Some inst', w2))))
                            else
                              (let w2 = logger ERROR ''Failed to send WhatsApp message: '' w1;
                                   (instance', w3) = mark_failed_opt instance w2
                               in case response_error_message response_data of
                                    Inl e \<Rightarrow> (Inl e, instance', w3)
                                  | Inr m \<Rightarrow>
                                      (Inl (Exception (''Failed to send WhatsApp message: ''
                                                         @ py_str m)),
                                       instance', w3))))
                in case attempt of
                     (Inl e, instance', w') \<Rightarrow>
                       (let w'' = logger ERROR ''Error sending WhatsApp message: '' w';
                            (instance'', w''') = mark_failed_opt instance' w''
                        in (Inl e, instance'', w'''))
                   | (Inr response_data, instance', w') \<Rightarrow> (Inr response_data, instance', w')))"

text \<open>
  \<open>_send_waha_api_message\<close>.  The contact lookup takes \<open>contact.whatsapp_chat_id or
  to_number\<close>, and \<open>to_number\<close> when there is no such contact.
\<close>

definition send_waha_api_message ::
  "http \<Rightarrow> phone_number \<Rightarrow> string \<Rightarrow> string option \<Rightarrow> string option \<Rightarrow> json
     \<Rightarrow> string option \<Rightarrow> string option \<Rightarrow> message option \<Rightarrow> world
     \<Rightarrow> (exn + json) \<times> message option \<times> world" where
  "send_waha_api_message net self to_number' message_text template_name template_params
       media_url media_type instance w =
     (if \<not> (opt_truthy (waha_endpoint self) \<and> opt_truthy (waha_username self)
             \<and> opt_truthy (waha_password self)) then
        (Inl (ValueError ''WAHA API endpoint, username and password are required''), instance, w)
      else
        case (case Contact_objects_get (contacts w) (Some to_number') of
                Inr contact \<Rightarrow>
                  Inr (if opt_truthy (whatsapp_chat_id contact)
                       then the (whatsapp_chat_id contact) else to_number')
              | Inl (DoesNotExist _) \<Rightarrow> Inr to_number'
              | Inl e \<Rightarrow> Inl e) of
          Inl e \<Rightarrow> (Inl e, instance, w)
        | Inr chat_id \<Rightarrow>
            (case WAHAService_init (waha_endpoint self) (waha_username self)
                     (waha_password self) (waha_session self) of
               Inl e \<Rightarrow> (Inl e, instance, w)
             | Inr waha_service \<Rightarrow>
                 (let attempt =
                    (case (if opt_truthy message_text then
                             send_text net waha_service chat_id (the message_text) True w
                           else if opt_truthy media_url \<and> opt_truthy media_type then
                             (if media_type = Some ''image'' then
                                send_image net waha_service chat_id (the media_url) None w
                              else if media_type = Some ''document'' then
                                send_document net waha_service chat_id (the media_url) None w
                              else if media_type = Some ''video'' then
                                send_video net waha_service chat_id (the media_url) None w
                              else if media_type = Some ''audio'' then
                                send_audio net waha_service chat_id (the media_url) w
                              else
                                (Inl (ValueError (''Unsupported media type for WAHA API: ''
                                                    @ the media_type)), w))
                           else
                             (Inl (ValueError ''WAHA API only supports text and media messages''),
                              w)) of
                       (Inl e, w1) \<Rightarrow> (Inl e, instance, w1)
                     | (Inr response_data, w1) \<Rightarrow>
                         (case py_get response_data ''success'' JNull of
                            Inl e \<Rightarrow> (Inl e, instance, w1)
                          | Inr ok \<Rightarrow>
                              if truthy ok then
                                (case instance of
                                   None \<Rightarrow> (Inr response_data, None, w1)
                                 | Some inst \<Rightarrow>
                                     (case py_get response_data ''id'' (JStr []) of
                                        Inl e \<Rightarrow> (Inl e, instance, w1)
                                      | Inr v \<Rightarrow>
                                          (case mark_sent v inst w1 of
                                             (Inl e, inst', w2) \<Rightarrow> (Inl e, Some inst', w2)
                                           | (Inr _, inst', w2) \<Rightarrow>
                                               (Inr response_data, Some inst', w2))))
                              else
                                (let w2 = logger ERROR ''Failed to send WAHA message: '' w1;
                                     (instance', w3) = mark_failed_opt instance w2
                                 in case py_get response_data ''error'' (JStr ''Unknown error'') of
                                      Inl e \<Rightarrow> (Inl e, instance', w3)
                                    | Inr m \<Rightarrow>
                                        (Inl (Exception (''Failed to send WAHA message: ''
                                                           @ py_str m)),
                                         instance', w3))))
                  in case attempt of
                       (Inl e, instance', w') \<Rightarrow>
                         (let w'' = logger ERROR ''Error sending WAHA message: '' w';
                              (instance'', w''') = mark_failed_opt instance' w''
                          in (Inl e, instance'', w'''))
                     | (Inr response_data, instance', w') \<Rightarrow>
                         (Inr response_data, instance', w'))))"

definition send_message_without_record ::
  "http \<Rightarrow> string \<Rightarrow> phone_number \<Rightarrow> string \<Rightarrow> string option \<Rightarrow> string option \<Rightarrow> json
     \<Rightarrow> string option \<Rightarrow> string option \<Rightarrow> message option \<Rightarrow> world
     \<Rightarrow> (exn + json) \<times> message option \<times> world" where
  "send_message_without_record net WHATSAPP_API_URL self to_number' message_text template_name
       template_params media_url media_type instance w =
     (if is_official_api self then
        send_official_api_message net WHATSAPP_API_URL self to_number' message_text template_name
          template_params media_url media_type instance w
      else if is_waha_api self then
        send_waha_api_message net self to_number' message_text template_name
          template_params media_url media_type instance w
      else (Inl (ValueError (''Unsupported API type: '' @ api_type self)), instance, w))"

text \<open>
  The \<open>try\<close> block of \<open>process_message_for_sending\<close>.  The value \<open>True\<close> is the
  \<open>return True\<close> that follows a send which did not raise.
\<close>

definition process_message_for_sending_try ::
  "http \<Rightarrow> string \<Rightarrow> phone_number \<Rightarrow> message \<Rightarrow> world \<Rightarrow> (exn + bool) \<times> message \<times> world" where
  "process_message_for_sending_try net WHATSAPP_API_URL self message_instance w =
     (let sent = (\<lambda>r. case r of
                    (Inl e, instance', w') \<Rightarrow>
                      (Inl e, case_option message_instance id instance', w')
                  | (Inr _, instance', w') \<Rightarrow>
                      (Inr True, case_option message_instance id instance', w'))
      in if message_type message_instance = ''text'' then
           sent (send_message_without_record net WHATSAPP_API_URL self
                   (to_number message_instance) (content message_instance) None JNull None None
                   (Some message_instance) w)
         else if message_type message_instance = ''template'' then
           (if is_waha_api self then
              (let w1 = logger WARNING ''Cannot send template message '' w;
                   (inst', w2) = mark_failed message_instance w1
               in (Inr False, inst', w2))
            else
              case msg_template message_instance of
                None \<Rightarrow>
                  (Inl (AttributeError ''NoneType object has no attribute name''),
                   message_instance, w)
              | Some tpl \<Rightarrow>
                  (let template_name = tpl_name tpl;
                       template_params = template_variables message_instance
                   in if template_name = [] then
                        (let w1 = logger WARNING ''Cannot send template message '' w;
                             (inst', w2) = mark_failed message_instance w1
                         in (Inr False, inst', w2))
                      else
                        sent (send_message_without_record net WHATSAPP_API_URL self
                                (to_number message_instance) None (Some template_name)
                                template_params None None (Some message_instance) w)))
         else if message_type message_instance \<in> set [''image'', ''audio'', ''video'', ''document''] then
           sent (send_message_without_record net WHATSAPP_API_URL self
                   (to_number message_instance) None None JNull
                   (media_file_url message_instance) (Some (message_type message_instance))
                   (Some message_instance) w)
         else
           (let w1 = logger WARNING ''Unsupported message type: '' w;
                (inst', w2) = mark_failed message_instance w1
            in (Inr False, inst', w2)))"

text \<open>
  \<open>process_message_for_sending\<close>: the three guards, then the \<open>try\<close> block with its
  \<open>except Exception\<close> clause, which logs, marks the message failed and returns \<open>False\<close>.
  The result is the returned value (or a raised exception), the message instance as
  the call leaves it, and the new state.
\<close>

definition process_message_for_sending ::
  "http \<Rightarrow> string \<Rightarrow> phone_number \<Rightarrow> message \<Rightarrow> world \<Rightarrow> (exn + bool) \<times> message \<times> world" where
  "process_message_for_sending net WHATSAPP_API_URL self message_instance w =
     (if \<not> is_active self then
        (let w1 = logger WARNING ''Cannot send message '' w;
             (inst', w2) = mark_failed message_instance w1
         in (Inr False, inst', w2))
      else if is_official_api self \<and> access_token self = [] then
        (let w1 = logger WARNING ''Cannot send message '' w;
             (inst', w2) = mark_failed message_instance w1
         in (Inr False, inst', w2))
      else if is_waha_api self \<and> \<not> (opt_truthy (waha_endpoint self)
                 \<and> opt_truthy (waha_username self) \<and> opt_truthy (waha_password self)) then
        (let w1 = logger WARNING ''Cannot send message '' w;
             (inst', w2) = mark_failed message_instance w1
         in (Inr False, inst', w2))
      else
        case process_message_for_sending_try net WHATSAPP_API_URL self message_instance w of
          (Inl e, inst', w') \<Rightarrow>
            (let w1 = logger ERROR ''Error sending message '' w';
                 (inst'', w2) = mark_failed inst' w1
             in (Inr False, inst'', w2))
        | (Inr b, inst', w') \<Rightarrow> (Inr b, inst', w'))"


section \<open>models/message.py\<close>



section \<open>signals/send\_outgoing\_message.py\<close>

text \<open>
  The \<open>post_save\<close> receiver: the automatic first send.  \<open>pn\<close> is the related
  \<open>instance.phone_number\<close>.  The receiver returns nothing.
\<close>

definition send_outgoing_message ::
  "http \<Rightarrow> string \<Rightarrow> phone_number \<Rightarrow> message \<Rightarrow> bool \<Rightarrow> world \<Rightarrow> (exn + unit) \<times> message \<times> world" where
  "send_outgoing_message net WHATSAPP_API_URL pn instance created w =
     (if created \<and> direction instance = ''outgoing'' \<and> status instance = ''pending'' then
        (case process_message_for_sending net WHATSAPP_API_URL pn instance w of
           (Inl e, instance', w') \<Rightarrow> (Inl e, instance', w')
         | (Inr _, instance', w') \<Rightarrow> (Inr (), instance', w'))
      else (Inr (), instance, w))"


section \<open>views/official\_api\_webhook.py\<close>

text \<open>
  \<open>int(x)\<close> on a decoded value.  A string may carry surrounding white space, a sign,
  and single underscores between its digits; the cap CPython puts on the length of
  such a literal is not modelled.
\<close>

definition ascii_digit :: "char \<Rightarrow> bool" where
  "ascii_digit c = (48 \<le> (of_char c :: nat) \<and> (of_char c :: nat) \<le> 57)"

definition py_isspace :: "char \<Rightarrow> bool" where
  "py_isspace c = ((of_char c :: nat) \<in> set [9, 10, 11, 12, 13, 28, 29, 30, 31, 32, 133, 160])"

definition py_strip :: "string \<Rightarrow> string" where
  "py_strip s = rev (dropWhile py_isspace (rev (dropWhile py_isspace s)))"

fun split_on :: "char \<Rightarrow> string \<Rightarrow> string list" where
  "split_on c [] = [[]]"
| "split_on c (x # xs) =
     (if x = c then [] # split_on c xs
      else (case split_on c xs of
              [] \<Rightarrow> [[x]]
            | y # ys \<Rightarrow> (x # y) # ys))"

definition int_of_digits :: "string \<Rightarrow> int" where
  "int_of_digits ds = fold (\<lambda>c n. 10 * n + ((of_char c :: int) - 48)) ds 0"

definition int_of_str :: "string \<Rightarrow> exn + int" where
  "int_of_str s =
     (let t = py_strip s;
          negative = (t \<noteq> [] \<and> hd t = CHR ''-'');
          body = (if t \<noteq> [] \<and> (hd t = CHR ''-'' \<or> hd t = CHR ''+'') then tl t else t);
          groups = split_on CHR ''_'' body
      in if list_all (\<lambda>g. g \<noteq> [] \<and> list_all ascii_digit g) groups then
           Inr ((if negative then - 1 else 1) * int_of_digits (concat groups))
         else Inl (ValueError ''invalid literal for int() with base 10''))"

fun py_int :: "json \<Rightarrow> exn + int" where
  "py_int (JInt i) = Inr i"
| "py_int (JBool b) = Inr (if b then 1 else 0)"
| "py_int (JStr s) = int_of_str s"
| "py_int _ = Inl (TypeError ''int() argument must be a string or a number'')"

text \<open>
  \<open>Message.objects.get(message_id=v)\<close>: the column is compared with the text the
  looked-up value is stored as.
\<close>

definition Message_objects_get :: "message list \<Rightarrow> json \<Rightarrow> exn + message" where
  "Message_objects_get rows v =
     (case filter (\<lambda>r. Some (message_id r) = char_value v) rows of
        [] \<Rightarrow> Inl (DoesNotExist ''Message matching query does not exist.'')
      | [r] \<Rightarrow> Inr r
      | _ \<Rightarrow> Inl (MultipleObjectsReturned ''get() returned more than one Message''))"

text \<open>
  The pattern \<open>if message.metadata: metadata = message.metadata; metadata[k] = v;
  message.metadata = metadata  else: message.metadata = {k: v}\<close>.  Item assignment on a
  truthy value that is no dictionary is a \<open>TypeError\<close>.
\<close>

definition set_metadata :: "string \<Rightarrow> json \<Rightarrow> message \<Rightarrow> exn + message" where
  "set_metadata k v m =
     (if truthy (metadata m) then
        (case metadata m of
           JDict kvs \<Rightarrow> Inr (m\<lparr>metadata := JDict (dict_set kvs k v)\<rparr>)
         | _ \<Rightarrow> Inl (TypeError ''object does not support item assignment''))
      else Inr (m\<lparr>metadata := JDict [(k, v)]\<rparr>))"

text \<open>
  The inner \<open>try\<close> of \<open>process_status_update\<close>: the time stamp.  \<open>fromtimestamp\<close> is
  the platform's \<open>datetime.fromtimestamp\<close> followed by \<open>timezone.make_aware\<close>;
  \<open>ValueError\<close> and \<open>TypeError\<close> are caught and logged, anything else goes on.
\<close>

definition status_timestamp ::
  "(int \<Rightarrow> exn + int) \<Rightarrow> json \<Rightarrow> json \<Rightarrow> message \<Rightarrow> world \<Rightarrow> (exn + message) \<times> world" where
  "status_timestamp fromtimestamp status' timestamp m w =
     (case bind_exn (py_int timestamp) fromtimestamp of
        Inr ts \<Rightarrow>
          (Inr (m\<lparr>delivered_at := (if status' = JStr ''delivered'' then Some ts else delivered_at m),
                   read_at := (if status' = JStr ''read'' then Some ts else read_at m)\<rparr>), w)
      | Inl (ValueError _) \<Rightarrow> (Inr m, logger WARNING ''Invalid timestamp in status update: '' w)
      | Inl (TypeError _) \<Rightarrow> (Inr m, logger WARNING ''Invalid timestamp in status update: '' w)
      | Inl e \<Rightarrow> (Inl e, w))"

text \<open>
  The conversation block.  The boolean tells whether the local variable
  \<open>conversation_id\<close> got bound, which \<open>'conversation_id' in locals()\<close> asks later.
\<close>

definition status_conversation :: "(string \<times> json) list \<Rightarrow> message \<Rightarrow> exn + (message \<times> bool)" where
  "status_conversation status_data m =
     (let conversation = dict_get status_data ''conversation'' (JDict [])
      in if truthy conversation then
           bind_exn (py_get conversation ''id'' JNull) (\<lambda>conversation_id'.
           bind_exn (py_get conversation ''expiration_timestamp'' JNull) (\<lambda>expiration.
           bind_exn (py_get conversation ''origin'' (JDict [])) (\<lambda>origin.
           bind_exn (py_get origin ''type'' JNull) (\<lambda>origin_type.
           bind_exn (set_metadata ''conversation'' conversation
                       (if truthy conversation_id'
                        then m\<lparr>conversation_id := char_value conversation_id'\<rparr> else m))
             (\<lambda>m'. Inr (m', True))))))
         else Inr (m, False))"

definition status_pricing :: "(string \<times> json) list \<Rightarrow> message \<Rightarrow> exn + message" where
  "status_pricing status_data m =
     (let pricing = dict_get status_data ''pricing'' (JDict [])
      in if truthy pricing then set_metadata ''pricing'' pricing m else Inr m)"

definition status_errors :: "(string \<times> json) list \<Rightarrow> message \<Rightarrow> exn + message" where
  "status_errors status_data m =
     (if map_of status_data ''errors'' \<noteq> None then
        (let errors = dict_get status_data ''errors'' (JList [])
         in bind_exn (set_metadata ''errors'' errors m) (\<lambda>m'.
              case errors of
                JList (first_error # _) \<Rightarrow>
                  bind_exn (py_get first_error ''code'' (JInt 0)) (\<lambda>code.
                  bind_exn (py_get first_error ''title'' (JStr [])) (\<lambda>title.
                    Inr (m'\<lparr>error_code := char_value code, error_message := char_value title\<rparr>)))
              | _ \<Rightarrow> Inr m'))
      else Inr m)"

text \<open>
  The fields to update.  The function has no local variable called \<open>error_code\<close>, so
  \<open>'error_code' in locals()\<close> is false and the two error columns are never listed.
\<close>

definition status_update_fields :: "message \<Rightarrow> bool \<Rightarrow> string list" where
  "status_update_fields m conversation_id_bound =
     [''status'', ''metadata'']
     @ (if delivered_at m \<noteq> None then [''delivered_at''] else [])
     @ (if read_at m \<noteq> None then [''read_at''] else [])
     @ (if conversation_id_bound \<and> opt_truthy (conversation_id m) then [''conversation_id''] else [])
     @ (if False \<and> opt_truthy (error_code m) then [''error_code'', ''error_message''] else [])"

text \<open>
  \<open>process_status_update\<close>.  \<open>status_data\<close> is a decoded JSON object.  The status
  is stored as it comes; \<open>Message.DoesNotExist\<close> is the one exception caught.
\<close>

definition process_status_update ::
  "(int \<Rightarrow> exn + int) \<Rightarrow> phone_number \<Rightarrow> (string \<times> json) list \<Rightarrow> world \<Rightarrow> (exn + unit) \<times> world" where
  "process_status_update fromtimestamp phone_number status_data w =
     (let message_id' = dict_get status_data ''id'' JNull;
          status' = dict_get status_data ''status'' JNull;
          timestamp = dict_get status_data ''timestamp'' JNull;
          recipient_id = dict_get status_data ''recipient_id'' JNull
      in if \<not> (truthy message_id' \<and> truthy status' \<and> truthy timestamp) then
           (Inr (), logger WARNING ''Status data missing required fields: '' w)
         else
           case Message_objects_get (messages w) message_id' of
             Inl (DoesNotExist _) \<Rightarrow>
               (Inr (), logger WARNING ''Message not found for status update: '' w)
           | Inl e \<Rightarrow> (Inl e, w)
           | Inr message \<Rightarrow>
               (case status_timestamp fromtimestamp status' timestamp
                       (message\<lparr>status := py_str status'\<rparr>) w of
                  (Inl e, w1) \<Rightarrow> (Inl e, w1)
                | (Inr m1, w1) \<Rightarrow>
                    (case bind_exn (status_conversation status_data m1) (\<lambda>(m2, bound).
                            bind_exn (status_pricing status_data m2) (\<lambda>m3.
                            bind_exn (status_errors status_data m3) (\<lambda>m4. Inr (m4, bound)))) of
                       Inl e \<Rightarrow> (Inl e, w1)
                     | Inr (m4, bound) \<Rightarrow>
                         (Inr (),
                          logger INFO ''Updated message status: ''
                            (save_update_fields m4 (status_update_fields m4 bound) w1)))))"

text \<open>
  The Django request, as far as the webhook reads it: the method, \<open>request.GET.get\<close>
  and the body.  A reply is the status and the content of an \<open>HttpResponse\<close>.
\<close>

record django_request =
  rq_method :: string
  rq_GET :: "string \<Rightarrow> string option"
  rq_body :: string

record http_reply =
  reply_status :: nat
  reply_content :: string

text \<open>\<open>PhoneNumber.objects.get(webhook_token=t, api_type='official')\<close>.\<close>

definition PhoneNumber_objects_get_official :: "phone_number list \<Rightarrow> string \<Rightarrow> exn + phone_number" where
  "PhoneNumber_objects_get_official rows t =
     (case filter (\<lambda>p. webhook_token p = t \<and> api_type p = ''official'') rows of
        [] \<Rightarrow> Inl (DoesNotExist ''PhoneNumber matching query does not exist.'')
      | [p] \<Rightarrow> Inr p
      | _ \<Rightarrow> Inl (MultipleObjectsReturned ''get() returned more than one PhoneNumber''))"

text \<open>
  \<open>webhook\<close>.  \<open>json_loads\<close> and \<open>process_webhook_data\<close> (the parser of the POST
  body) are parameters; \<open>phone_numbers\<close> is the phone-number table.  In the POST
  branch a \<open>JSONDecodeError\<close> gives 400 and any other exception 500 with its text.
\<close>

definition webhook ::
  "(string \<Rightarrow> exn + json) \<Rightarrow> (json \<Rightarrow> phone_number \<Rightarrow> world \<Rightarrow> (exn + unit) \<times> world)
     \<Rightarrow> phone_number list \<Rightarrow> django_request \<Rightarrow> string \<Rightarrow> world \<Rightarrow> (exn + http_reply) \<times> world" where
  "webhook json_loads process_webhook_data phone_numbers request webhook_token' w =
     (case PhoneNumber_objects_get_official phone_numbers webhook_token' of
        Inl (DoesNotExist _) \<Rightarrow>
          (Inr \<lparr>reply_status = 403, reply_content = ''Invalid webhook token''\<rparr>,
           logger WARNING ''No phone number found with webhook_token: '' w)
      | Inl e \<Rightarrow> (Inl e, w)
      | Inr phone_number \<Rightarrow>
          (let w0 = logger INFO ''Found phone number: '' w
           in if rq_method request = ''GET'' then
                (let mode = rq_GET request ''hub.mode'';
                     token = rq_GET request ''hub.verify_token'';
                     challenge = rq_GET request ''hub.challenge''
                 in if token \<noteq> Some (verify_token phone_number) then
                      (Inr \<lparr>reply_status = 403,
                            reply_content = ''Verification failed: invalid token''\<rparr>,
                       logger WARNING ''Verification failed: Token mismatch for phone number: '' w0)
                    else if mode = Some ''subscribe'' then
                      (Inr \<lparr>reply_status = 200, reply_content = fmt_opt challenge\<rparr>, w0)
                    else
                      (Inr \<lparr>reply_status = 403,
                            reply_content = ''Verification failed: invalid mode''\<rparr>,
                       logger WARNING ''Invalid mode in webhook verification: '' w0))
              else if rq_method request = ''POST'' then
                (case (case json_loads (rq_body request) of
                         Inl e \<Rightarrow> (Inl e, w0)
                       | Inr data \<Rightarrow>
                           process_webhook_data data phone_number
                             (logger INFO ''Received WhatsApp webhook for '' w0)) of
                   (Inr _, w1) \<Rightarrow> (Inr \<lparr>reply_status = 200, reply_content = ''OK''\<rparr>, w1)
                 | (Inl (JSONDecodeError _), w1) \<Rightarrow>
                     (Inr \<lparr>reply_status = 400, reply_content = ''Invalid JSON''\<rparr>,
                      logger ERROR ''Invalid JSON in webhook payload'' w1)
                 | (Inl e, w1) \<Rightarrow>
                     (Inr \<lparr>reply_status = 500, reply_content = str_of_exn e\<rparr>,
                      logger ERROR ''Error processing webhook: '' w1))
              else (Inr \<lparr>reply_status = 405, reply_content = ''Method not allowed''\<rparr>, w0)))"


section \<open>views/waha\_webhook.py\<close>

text \<open>
  The WAHA event, typed after the structure the docstring of \<open>waha_webhook\<close> gives.
  A key of a JSON object is absent, present with \<open>null\<close>, or present with a value;
  \<open>d.get(k)\<close> and \<open>d.get(k, default)\<close> tell the first two apart only through the
  default.  Numbers, ids and texts are strings, the two flags are booleans, the time
  stamp is an integer and \<open>vCards\<close> a list of strings; \<open>media\<close>, \<open>location\<close> and
  \<open>replyTo\<close> stay decoded JSON values.  \<open>md_raw\<close> is the text
  \<open>json.dumps(message_data)\<close> gives.
\<close>

datatype 'a field = Absent | Null | Val 'a

definition field_get :: "'a field \<Rightarrow> 'a option" where
  "field_get f = (case f of Absent \<Rightarrow> None | Null \<Rightarrow> None | Val v \<Rightarrow> Some v)"

definition field_get_default :: "'a field \<Rightarrow> 'a \<Rightarrow> 'a option" where
  "field_get_default f dflt = (case f of Absent \<Rightarrow> Some dflt | Null \<Rightarrow> None | Val v \<Rightarrow> Some v)"

record waha_message_data =
  md_id :: "string field"
  md_timestamp :: "int field"
  md_from :: "string field"
  md_fromMe :: "bool field"
  md_to :: "string field"
  md_body :: "string field"
  md_hasMedia :: "bool field"
  md_media :: "json field"
  md_location :: "json field"
  md_vCards :: "string list field"
  md_replyTo :: "json field"
  md_author :: "string field"
  md_raw :: string

record waha_me =
  me_id :: "string field"

record waha_event =
  ev_event :: "string field"
  ev_session :: "string field"
  ev_payload :: "waha_message_data field"
  ev_me :: "waha_me field"

text \<open>The empty object \<open>{}\<close>, the default of \<open>payload.get('payload', {})\<close>.\<close>

definition empty_message_data :: waha_message_data where
  "empty_message_data =
     \<lparr>md_id = Absent, md_timestamp = Absent, md_from = Absent, md_fromMe = Absent,
      md_to = Absent, md_body = Absent, md_hasMedia = Absent, md_media = Absent,
      md_location = Absent, md_vCards = Absent, md_replyTo = Absent, md_author = Absent,
      md_raw = ''{}''\<rparr>"

record json_reply =
  jr_status :: nat
  jr_body :: json

text \<open>String operations: \<open>sub in s\<close>, \<open>s.split(sep)[-1]\<close> (the separators are found
  from the left and do not overlap) and \<open>s.split(sep)[0]\<close> for a one-character
  separator.\<close>

fun contains :: "string \<Rightarrow> string \<Rightarrow> bool" where
  "contains sub [] = (sub = [])"
| "contains sub (c # cs) = (take (length sub) (c # cs) = sub \<or> contains sub cs)"

fun split_last_from :: "string \<Rightarrow> nat \<Rightarrow> string \<Rightarrow> string \<Rightarrow> string" where
  "split_last_from sep skip cur [] = cur"
| "split_last_from sep skip cur (c # cs) =
     (if 0 < skip then split_last_from sep (skip - 1) (if skip = 1 then cs else cur) cs
      else if sep \<noteq> [] \<and> take (length sep) (c # cs) = sep then
        (if length sep = 1 then split_last_from sep 0 cs cs
         else split_last_from sep (length sep - 1) cur cs)
      else split_last_from sep 0 cur cs)"

definition split_last :: "string \<Rightarrow> string \<Rightarrow> string" where
  "split_last sep s = split_last_from sep 0 s s"

definition split_first :: "char \<Rightarrow> string \<Rightarrow> string" where
  "split_first c s = takeWhile (\<lambda>x. x \<noteq> c) s"

text \<open>\<open>x.split(...)\<close> needs a string.\<close>

definition as_str :: "json \<Rightarrow> exn + string" where
  "as_str j = (case j of JStr s \<Rightarrow> Inr s | _ \<Rightarrow> Inl (AttributeError ''object has no attribute split''))"

text \<open>\<open>'/api/files/' in x\<close> for a truthy decoded value.\<close>

definition py_contains :: "string \<Rightarrow> json \<Rightarrow> exn + bool" where
  "py_contains sub j =
     (case j of
        JStr s \<Rightarrow> Inr (contains sub s)
      | JList xs \<Rightarrow> Inr (JStr sub \<in> set xs)
      | JDict kvs \<Rightarrow> Inr (map_of kvs sub \<noteq> None)
      | _ \<Rightarrow> Inl (TypeError ''argument is not iterable''))"

text \<open>
  The inner \<open>try\<close> of the media block: the file is fetched from the bridge with the
  bridge's credentials.  The result is the file name and the content.
\<close>

definition download_media_try ::
  "http \<Rightarrow> phone_number \<Rightarrow> string option \<Rightarrow> json \<Rightarrow> json \<Rightarrow> json \<Rightarrow> world
     \<Rightarrow> (exn + (json \<times> string)) \<times> world" where
  "download_media_try net phone_number message_id' media_info original_url filename w =
     (case bind_exn (as_str original_url) (\<lambda>url.
             bind_exn (WAHAService_init (waha_endpoint phone_number) (waha_username phone_number)
                         (waha_password phone_number) (waha_session phone_number))
               (\<lambda>waha_service. Inr (split_last ''/api/files/'' url, waha_service))) of
        Inl e \<Rightarrow> (Inl e, w)
      | Inr (file_path, waha_service) \<Rightarrow>
          (let full_url = rstrip_slash (the (waha_endpoint phone_number)) @ ''/api/files/'' @ file_path;
               w0 = logger INFO ''Downloading media from: '' w
           in case (if \<not> truthy filename then
                      (if CHR ''.'' \<in> set file_path then Inr (JStr (after_last_slash file_path))
                       else bind_exn (py_get media_info ''mimetype'' (JStr []))
                              (\<lambda>mt. bind_exn (as_str mt)
                                 (\<lambda>mt'. Inr (JStr (fmt_opt message_id' @ ''.''
                                                 @ after_last_slash mt')))))
                    else Inr filename) of
                Inl e \<Rightarrow> (Inl e, w0)
              | Inr filename' \<Rightarrow>
                  (case requests_call net
                          \<lparr>req_method = ''GET'', req_url = full_url,
                           req_headers = [(''Authorization'', get_auth_header waha_service)],
                           req_json = None\<rparr> w0 of
                     (Inl e, w1) \<Rightarrow> (Inl e, w1)
                   | (Inr response, w1) \<Rightarrow>
                       if status_code response = 200 then
                         (Inr (filename', resp_text response),
                          logger INFO ''Successfully downloaded media file: '' w1)
                       else
                         (Inl (Exception (''Failed to download media file: ''
                                            @ str_of_nat (status_code response))),
                          logger ERROR ''Failed to download media file: '' w1))))"

text \<open>
  The media block.  It yields the message type, the body, the file name and the
  downloaded content (if any).  An exception of the inner \<open>try\<close> is logged and raised
  again as a plain \<open>Exception\<close>.
\<close>

definition media_block ::
  "http \<Rightarrow> phone_number \<Rightarrow> waha_message_data \<Rightarrow> string option \<Rightarrow> string option \<Rightarrow> world
     \<Rightarrow> (exn + ((string \<times> string option) \<times> json \<times> string option)) \<times> world" where
  "media_block net phone_number message_data message_id' message_body w =
     (if field_get_default (md_hasMedia message_data) False = Some True
         \<and> (case field_get (md_media message_data) of None \<Rightarrow> False | Some m \<Rightarrow> truthy m) then
        (let media_info = the (field_get_default (md_media message_data) (JDict []))
         in case bind_exn (py_get media_info ''mimetype'' (JStr [])) (\<lambda>mt.
                 bind_exn (as_str mt) (\<lambda>mt'.
                 bind_exn (py_get media_info ''url'' (JStr [])) (\<lambda>original_url.
                 bind_exn (py_get media_info ''filename'' (JStr [])) (\<lambda>filename.
                 bind_exn (if truthy original_url then py_contains ''/api/files/'' original_url
                           else Inr False) (\<lambda>fetch.
                   Inr (split_first CHR ''/'' mt', original_url, filename, fetch)))))) of
              Inl e \<Rightarrow> (Inl e, w)
            | Inr (media_type, original_url, filename, fetch) \<Rightarrow>
                (case (if fetch then
                         (case download_media_try net phone_number message_id' media_info
                                 original_url filename w of
                            (Inl e, w1) \<Rightarrow>
                              (Inl (Exception (''Error downloading media file: '' @ str_of_exn e)),
                               logger ERROR ''Error downloading media file: '' w1)
                          | (Inr (filename', file_content), w1) \<Rightarrow>
                              (Inr (filename', Some file_content), w1))
                       else (Inr (filename, None), w)) of
                   (Inl e, w1) \<Rightarrow> (Inl e, w1)
                 | (Inr (filename', downloaded_file), w1) \<Rightarrow>
                     (Inr (if media_type = ''image'' then
                             (''image'', if opt_truthy message_body then message_body
                                         else Some ''Image received'')
                           else if media_type = ''video'' then
                             (''video'', if opt_truthy message_body then message_body
                                         else Some ''Video received'')
                           else if media_type = ''audio'' then
                             (''audio'', Some ''Audio received'')
                           else if media_type = ''application'' \<or> truthy filename' then
                             (''document'', if truthy filename' then Some (py_str filename')
                                            else Some ''Document received'')
                           else
                             (''document'',
                              Some (''Media of type ''
                                    @ py_str (dict_get (case media_info of JDict kvs \<Rightarrow> kvs | _ \<Rightarrow> [])
                                                ''mimetype'' JNull)
                                    @ '' received'')),
                           filename', downloaded_file), w1)))
      else (Inr ((''text'', message_body), JNull, None), w))"

text \<open>
  The location, contact-card and reply blocks.  The first two may change type and
  body; the reply block only reads, so it matters through what it may raise.
\<close>

definition location_block ::
  "waha_message_data \<Rightarrow> string \<times> string option \<Rightarrow> exn + (string \<times> string option)" where
  "location_block message_data tb =
     (case field_get (md_location message_data) of
        None \<Rightarrow> Inr tb
      | Some location \<Rightarrow>
          if truthy location then
            bind_exn (py_get location ''description'' (JStr [])) (\<lambda>d.
            bind_exn (py_get location ''latitude'' (JStr [])) (\<lambda>lat.
            bind_exn (py_get location ''longitude'' (JStr [])) (\<lambda>lon.
              Inr (''location'',
                   Some (''Location: '' @ py_str d @ '' ('' @ py_str lat @ '', '' @ py_str lon
                         @ '')'')))))
          else Inr tb)"

definition vcards_block ::
  "waha_message_data \<Rightarrow> string \<times> string option \<Rightarrow> string \<times> string option" where
  "vcards_block message_data tb =
     (case field_get (md_vCards message_data) of
        None \<Rightarrow> tb
      | Some cards \<Rightarrow>
          if cards \<noteq> [] \<and> 0 < length cards then
            (''interactive'',
             Some (''Contact card received: '' @ str_of_nat (length cards) @ '' contact(s)''))
          else tb)"

definition reply_block :: "waha_message_data \<Rightarrow> exn + unit" where
  "reply_block message_data =
     (case field_get (md_replyTo message_data) of
        None \<Rightarrow> Inr ()
      | Some reply \<Rightarrow>
          if truthy reply then
            bind_exn (py_get reply ''id'' JNull) (\<lambda>_.
            bind_exn (py_get reply ''body'' JNull) (\<lambda>_.
            bind_exn (py_get reply ''participant'' JNull) (\<lambda>_. Inr ())))
          else Inr ())"

text \<open>
  Contact resolution.  \<open>'@' in from_number\<close> is a \<open>TypeError\<close> on \<open>None\<close>.  A contact
  is created (through \<open>Contact.save\<close>) only for an incoming message.
\<close>

definition resolve_contact ::
  "waha_message_data \<Rightarrow> string option \<Rightarrow> string \<Rightarrow> world \<Rightarrow> (exn + contact option) \<times> world" where
  "resolve_contact message_data from_number' direction' w =
     (case from_number' of
        None \<Rightarrow> (Inl (TypeError ''argument of type NoneType is not iterable''), w)
      | Some fn \<Rightarrow>
          (let clean_phone_number = (if CHR ''@'' \<in> set fn then split_first CHR ''@'' fn else fn)
           in case Contact_objects_get (contacts w) (Some clean_phone_number) of
                Inr c \<Rightarrow> (Inr (Some c), w)
              | Inl (DoesNotExist _) \<Rightarrow>
                  if direction' = ''incoming'' then
                    (let contact_name =
                           (if opt_truthy (field_get (md_author message_data))
                            then the (field_get (md_author message_data)) else clean_phone_number)
                     in case Contact_save (contacts w)
                               \<lparr>contact_pk = None, contact_name = contact_name,
                                contact_phone_number = Some clean_phone_number,
                                whatsapp_chat_id = None\<rparr> of
                          Inl e \<Rightarrow> (Inl e, w)
                        | Inr (c, rows) \<Rightarrow>
                            (Inr (Some c),
                             logger INFO ''Created new contact for '' (w\<lparr>contacts := rows\<rparr>)))
                  else (Inr None, w)
              | Inl e \<Rightarrow> (Inl e, w)))"

text \<open>
  The time stamp: \<open>fromtimestamp\<close> is the platform's conversion, \<open>now\<close> the clock.
  \<open>ValueError\<close> and \<open>TypeError\<close> fall back to the clock.  The column itself is filled
  by \<open>auto_now_add\<close>, so only an exception of the conversion has an effect.
\<close>

definition message_timestamp ::
  "(int \<Rightarrow> exn + int) \<Rightarrow> int \<Rightarrow> waha_message_data \<Rightarrow> exn + int" where
  "message_timestamp fromtimestamp now message_data =
     (case field_get (md_timestamp message_data) of
        None \<Rightarrow> Inr now
      | Some t \<Rightarrow>
          if t \<noteq> 0 then
            (case fromtimestamp t of
               Inr ts \<Rightarrow> Inr ts
             | Inl (ValueError _) \<Rightarrow> Inr now
             | Inl (TypeError _) \<Rightarrow> Inr now
             | Inl e \<Rightarrow> Inl e)
          else Inr now)"

definition fresh_message_pk :: "message list \<Rightarrow> nat" where
  "fresh_message_pk rows = Suc (fold max (map msg_pk rows) 0)"

text \<open>
  \<open>Message.objects.create(...)\<close> with the keyword arguments of the handler.  The id
  and the two numbers are NOT NULL columns, the id is unique.  The other columns take
  their defaults.  The new row is appended.
\<close>

definition Message_objects_create ::
  "phone_number \<Rightarrow> contact option \<Rightarrow> string option \<Rightarrow> string option \<Rightarrow> string option \<Rightarrow> string
     \<Rightarrow> string \<Rightarrow> string option \<Rightarrow> string option \<Rightarrow> string \<Rightarrow> json \<Rightarrow> world
     \<Rightarrow> (exn + message) \<times> world" where
  "Message_objects_create phone_number contact message_id' from_number' to_number' direction'
       message_type' content' media_id' status' raw_message' w =
     (if message_id' = None \<or> from_number' = None \<or> to_number' = None then
        (Inl (IntegrityError ''NOT NULL constraint failed''), w)
      else if list_ex (\<lambda>row. message_id row = the message_id') (messages w) then
        (Inl (IntegrityError ''UNIQUE constraint failed: message.message_id''), w)
      else
        (let row = \<lparr>msg_pk = fresh_message_pk (messages w),
                    msg_phone_number = pn_pk phone_number,
                    msg_contact = (case contact of None \<Rightarrow> None | Some c \<Rightarrow> contact_pk c),
                    msg_template = None, template_variables = JDict [],
                    message_id = the message_id', conversation_id = None,
                    from_number = the from_number', to_number = the to_number',
                    direction = direction', message_type = message_type', content = content',
                    media_file_url = None, media_id = media_id', metadata = JNull,
                    status = status', raw_message = raw_message',
                    delivered_at = None, read_at = None, error_code = None,
                    error_message = None\<rparr>
         in (Inr row, w\<lparr>messages := messages w @ [row]\<rparr>)))"

text \<open>
  \<open>message.media_file.save(filename, downloaded_file, save=True)\<close>: the file is stored
  and the row gets its URL, which the storage decides (\<open>storage_url\<close>).
\<close>

definition media_file_save ::
  "(string \<Rightarrow> string) \<Rightarrow> json \<Rightarrow> message \<Rightarrow> world \<Rightarrow> (exn + message) \<times> world" where
  "media_file_save storage_url filename m w =
     (case filename of
        JStr f \<Rightarrow>
          (let m' = m\<lparr>media_file_url := Some (storage_url f)\<rparr>
           in (Inr m',
               w\<lparr>messages := map (\<lambda>row. if msg_pk row = msg_pk m then m' else row) (messages w)\<rparr>))
      | _ \<Rightarrow> (Inl (TypeError ''expected str, bytes or os.PathLike object''), w))"

text \<open>
  The \<open>try\<close> block of \<open>_handle_incoming_message\<close>.  Saving the new message runs the
  \<open>post_save\<close> receiver \<open>send_outgoing_message\<close>, as for every message.
\<close>

definition handle_incoming_message_try ::
  "http \<Rightarrow> string \<Rightarrow> (int \<Rightarrow> exn + int) \<Rightarrow> int \<Rightarrow> (string \<Rightarrow> string) \<Rightarrow> waha_event \<Rightarrow> phone_number
     \<Rightarrow> world \<Rightarrow> (exn + json_reply) \<times> world" where
  "handle_incoming_message_try net WHATSAPP_API_URL fromtimestamp now storage_url payload
       phone_number w =
     (case (case field_get_default (ev_payload payload) empty_message_data of
              None \<Rightarrow> Inl (AttributeError ''NoneType object has no attribute get'')
            | Some message_data \<Rightarrow>
                bind_exn
                  (if opt_truthy (field_get (md_to message_data))
                   then Inr (field_get (md_to message_data))
                   else (case field_get_default (ev_me payload) \<lparr>me_id = Absent\<rparr> of
                           None \<Rightarrow> Inl (AttributeError ''NoneType object has no attribute get'')
                         | Some me \<Rightarrow> Inr (field_get (me_id me))))
                  (\<lambda>to_number'. Inr (message_data, to_number'))) of
        Inl e \<Rightarrow> (Inl e, w)
      | Inr (message_data, to_number0) \<Rightarrow>
          (let message_id' = field_get (md_id message_data);
               from_number0 = field_get (md_from message_data);
               from_me = field_get_default (md_fromMe message_data) False;
               direction' = (if from_me = Some True then ''outgoing'' else ''incoming'');
               from_number' = (if direction' = ''outgoing'' then to_number0 else from_number0);
               to_number' = (if direction' = ''outgoing'' then from_number0 else to_number0);
               message_body = field_get_default (md_body message_data) [];
               media_id' = None
           in case media_block net phone_number message_data message_id' message_body w of
                (Inl e, w1) \<Rightarrow> (Inl e, w1)
              | (Inr (tb, filename, downloaded_file), w1) \<Rightarrow>
                  (case bind_exn (location_block message_data tb) (\<lambda>tb1.
                          let tb2 = vcards_block message_data tb1
                          in bind_exn (reply_block message_data) (\<lambda>_. Inr tb2)) of
                     Inl e \<Rightarrow> (Inl e, w1)
                   | Inr (message_type', message_body') \<Rightarrow>
                       (case resolve_contact message_data from_number' direction'
                               (logger INFO ''Received message from '' w1) of
                          (Inl e, w2) \<Rightarrow> (Inl e, w2)
                        | (Inr contact, w2) \<Rightarrow>
                            (case message_timestamp fromtimestamp now message_data of
                               Inl e \<Rightarrow> (Inl e, w2)
                             | Inr timestamp \<Rightarrow>
                                 (case Message_objects_create phone_number contact message_id'
                                         from_number' to_number' direction' message_type'
                                         message_body' media_id'
                                         (if direction' = ''incoming'' then ''received'' else ''sent'')
                                         (JStr (md_raw message_data)) w2 of
                                    (Inl e, w3) \<Rightarrow> (Inl e, w3)
                                  | (Inr message, w3) \<Rightarrow>
                                      (case send_outgoing_message net WHATSAPP_API_URL phone_number
                                              message True w3 of
                                         (Inl e, _, w4) \<Rightarrow> (Inl e, w4)
                                       | (Inr _, message1, w4) \<Rightarrow>
                                           (case (if downloaded_file \<noteq> None \<and> truthy filename then
                                                    (case media_file_save storage_url filename
                                                            message1 w4 of
                                                       (Inl e, w5) \<Rightarrow> (Inl e, w5)
                                                     | (Inr m, w5) \<Rightarrow>
                                                         (Inr m, logger INFO
                                                            ''Saved media file to message ID: '' w5))
                                                  else (Inr message1, w4)) of
                                              (Inl e, w5) \<Rightarrow> (Inl e, w5)
                                            | (Inr message2, w5) \<Rightarrow>
                                                (Inr \<lparr>jr_status = 200,
                                                      jr_body = JDict
                                                        [(''status'', JStr ''success''),
                                                         (''message'', JStr ''Message received and saved''),
                                                         (''message_id'',
                                                          JStr (message_id message2)),
                                                         (''message_type'', JStr message_type'),
                                                         (''db_id'', JInt (int (msg_pk message2)))]\<rparr>,
                                                 logger INFO ''Saved message to database with ID: ''
                                                   w5)))))))))"

text \<open>
  \<open>_handle_incoming_message\<close>: whatever the \<open>try\<close> block raises becomes a reply with
  status 500 carrying the text of the exception.
\<close>

definition handle_incoming_message ::
  "http \<Rightarrow> string \<Rightarrow> (int \<Rightarrow> exn + int) \<Rightarrow> int \<Rightarrow> (string \<Rightarrow> string) \<Rightarrow> waha_event \<Rightarrow> phone_number
     \<Rightarrow> world \<Rightarrow> json_reply \<times> world" where
  "handle_incoming_message net WHATSAPP_API_URL fromtimestamp now storage_url payload
       phone_number w =
     (case handle_incoming_message_try net WHATSAPP_API_URL fromtimestamp now storage_url payload
             phone_number w of
        (Inr reply, w') \<Rightarrow> (reply, w')
      | (Inl e, w') \<Rightarrow>
          (\<lparr>jr_status = 500,
            jr_body = JDict [(''status'', JStr ''error''), (''message'', JStr (str_of_exn e))]\<rparr>,
           logger ERROR ''Error handling incoming message: '' w'))"


section \<open>Specification predicates and example data\<close>

text \<open>
  What the WAHA client owes its caller for the answer the network gives to a request:
  on a transport exception the failure dictionary with the text of the exception, on
  a status outside 200..299 the failure dictionary with the status and the body.
\<close>

definition uniform_failure :: "http \<Rightarrow> http_request \<Rightarrow> json \<Rightarrow> bool" where
  "uniform_failure net req j =
     (case net req of
        Inl e \<Rightarrow> j = failure_result (str_of_exn e)
      | Inr r \<Rightarrow>
          (status_code r < 200 \<or> 300 \<le> status_code r) \<longrightarrow>
          j = failure_result (''HTTP '' @ str_of_nat (status_code r) @ '': '' @ resp_text r))"

text \<open>
  Two networks, a phone number for each backend, some stored messages and the states
  the examples start from.
\<close>

definition net_unreachable :: http where
  "net_unreachable req = Inl (RequestException ''connection refused'')"

definition net_server_error :: http where
  "net_server_error req =
     Inr \<lparr>status_code = 500, resp_text = ''Internal Server Error'',
          resp_json = Inl (JSONDecodeError ''Expecting value'')\<rparr>"

definition example_official_number :: phone_number where
  "example_official_number =
     \<lparr>pn_pk = 1, display_name = ''Support'', pn_phone_number = ''40700000000'',
      api_type = ''official'', phone_number_id = Some ''1055'', business_account_id = ''2066'',
      access_token = ''token'', waha_endpoint = None, waha_username = None,
      waha_password = None, waha_session = ''default'', is_active = True,
      is_configured = True, verify_token = ''verify-1'', webhook_token = ''hook-1''\<rparr>"

definition example_waha_number :: phone_number where
  "example_waha_number =
     \<lparr>pn_pk = 2, display_name = ''Bridge'', pn_phone_number = ''40711111111'',
      api_type = ''waha'', phone_number_id = None, business_account_id = '''',
      access_token = '''', waha_endpoint = Some ''http://waha:3000/'',
      waha_username = Some ''admin'', waha_password = Some ''secret'',
      waha_session = ''default'', is_active = True,
      is_configured = True, verify_token = ''verify-2'', webhook_token = ''hook-2''\<rparr>"

definition example_waha_service :: waha_service where
  "example_waha_service =
     \<lparr>ws_endpoint = ''http://waha:3000'', ws_username = Some ''admin'',
      ws_password = Some ''secret'', ws_session = ''default''\<rparr>"

definition example_message :: message where
  "example_message =
     \<lparr>msg_pk = 7, msg_phone_number = 1, msg_contact = None, msg_template = None,
      template_variables = JDict [], message_id = ''0b5c5e0e-temp'', conversation_id = None,
      from_number = ''40700000000'', to_number = ''40777777777'', direction = ''outgoing'',
      message_type = ''text'', content = Some ''hello'', media_file_url = None,
      media_id = None, metadata = JNull, status = ''failed'', raw_message = JNull,
      delivered_at = None, read_at = None, error_code = None, error_message = None\<rparr>"

definition example_template_message :: message where
  "example_template_message =
     example_message\<lparr>msg_pk := 8, msg_phone_number := 2, message_id := ''5d2f-temp'',
       from_number := ''40711111111'', message_type := ''template'',
       msg_template := Some \<lparr>template_pk = 3, tpl_name = ''order_update''\<rparr>,
       content := Some ''order_update'', status := ''pending''\<rparr>"

definition example_world :: world where
  "example_world =
     \<lparr>contacts = [], messages = [example_message, example_template_message],
      http_log = [], logs = []\<rparr>"

text \<open>
  A stand-in for the platform's date conversion: seconds since the epoch that fall in
  the years 1 to 9999 are accepted, anything else is a \<open>ValueError\<close>.
\<close>

definition utc_fromtimestamp :: "int \<Rightarrow> exn + int" where
  "utc_fromtimestamp n =
     (if - 62135596800 \<le> n \<and> n \<le> 253402300799 then Inr n
      else Inl (ValueError ''year is out of range''))"

definition example_read_message :: message where
  "example_read_message =
     example_message\<lparr>msg_pk := 9, message_id := ''wamid.HBgLNDA3'', status := ''read'',
       delivered_at := Some 1700000000, read_at := Some 1700000060\<rparr>"

definition example_delivered_update :: "(string \<times> json) list" where
  "example_delivered_update =
     [(''id'', JStr ''wamid.HBgLNDA3''), (''status'', JStr ''delivered''),
      (''timestamp'', JStr ''1700000030''), (''recipient_id'', JStr ''40777777777'')]"

definition example_status_world :: world where
  "example_status_world =
     \<lparr>contacts = [], messages = [example_read_message], http_log = [], logs = []\<rparr>"

text \<open>Stand-ins for the two parameters of \<open>webhook\<close>, and a verification request.\<close>

definition example_json_loads :: "string \<Rightarrow> exn + json" where
  "example_json_loads s = Inl (JSONDecodeError ''Expecting value'')"

definition example_process_webhook_data :: "json \<Rightarrow> phone_number \<Rightarrow> world \<Rightarrow> (exn + unit) \<times> world" where
  "example_process_webhook_data data pn w = (Inr (), w)"

definition example_verification_request :: django_request where
  "example_verification_request =
     \<lparr>rq_method = ''GET'',
      rq_GET = [''hub.mode'' \<mapsto> ''subscribe'', ''hub.verify_token'' \<mapsto> ''verify-1'',
                ''hub.challenge'' \<mapsto> ''1158201444''],
      rq_body = []\<rparr>"

text \<open>
  A WAHA event for a message the account itself sent (\<open>fromMe\<close> true), the same
  event without its \<open>to\<close> field, and a storage that serves files under \<open>/media/\<close>.
\<close>

definition example_storage_url :: "string \<Rightarrow> string" where
  "example_storage_url f = ''/media/whatsapp_media/'' @ f"

definition example_echo_data :: waha_message_data where
  "example_echo_data =
     \<lparr>md_id = Val ''true_40777777777@c.us_3EB0'', md_timestamp = Val 1700000100,
      md_from = Val ''40711111111@c.us'', md_fromMe = Val True,
      md_to = Val ''40777777777@c.us'', md_body = Val ''on my way'',
      md_hasMedia = Val False, md_media = Null, md_location = Absent, md_vCards = Absent,
      md_replyTo = Absent, md_author = Absent, md_raw = ''{...}''\<rparr>"

definition example_echo_event :: waha_event where
  "example_echo_event =
     \<lparr>ev_event = Val ''message'', ev_session = Val ''default'',
      ev_payload = Val example_echo_data,
      ev_me = Val \<lparr>me_id = Val ''40711111111@c.us''\<rparr>\<rparr>"

definition example_echo_data_without_to :: waha_message_data where
  "example_echo_data_without_to = example_echo_data\<lparr>md_to := Absent\<rparr>"

definition example_echo_event_without_to :: waha_event where
  "example_echo_event_without_to =
     example_echo_event\<lparr>ev_payload := Val example_echo_data_without_to\<rparr>"


section \<open>Properties of models/contact.py\<close>

text \<open>
  Claim C5.  Normalising a phone number twice gives what normalising it once gives,
  for every optional string; and \<open>"+40 777 777 777"\<close> normalises to
  \<open>"40777777777"\<close>.
\<close>

theorem normalize_phone_number_idempotent:
  "normalize_phone_number (normalize_phone_number x) = normalize_phone_number x
   \<and> normalize_phone_number (Some ''+40 777 777 777'') = Some ''40777777777''"
proof
  show "normalize_phone_number (normalize_phone_number x) = normalize_phone_number x"
    by (cases x) (simp_all add: normalize_phone_number_def)
  show "normalize_phone_number (Some ''+40 777 777 777'') = Some ''40777777777''"
    by (simp add: normalize_phone_number_def isdigit_def)
qed



text \<open>
  Claim C10.  A falsy phone number comes back unchanged: \<open>None\<close> gives \<open>None\<close> and
  the empty string gives the empty string.  The empty string fails
  \<open>validate_phone_number\<close>, yet \<open>Contact.save\<close> stores a contact whose number is the
  empty string (when no row holds it yet) and \<open>Contact.find_by_phone\<close> then finds that
  contact under the empty string: the digits-only, 7-to-15 guarantee does not reach it.
\<close>

theorem normalize_phone_number_falsy_unchanged:
  "normalize_phone_number None = None
   \<and> normalize_phone_number (Some '''') = Some ''''
   \<and> (\<exists>msg. validate_phone_number '''' = Inl (ValidationError msg))
   \<and> (contact_phone_number c = Some '''' \<and> contact_pk c = None
        \<and> \<not> list_ex (\<lambda>r. contact_phone_number r = Some '''') rows
      \<longrightarrow> (\<exists>c'. Contact_save rows c = Inr (c', rows @ [c'])
                \<and> contact_phone_number c' = Some ''''
                \<and> find_by_phone (rows @ [c']) (Some '''') = Inr (Some c')))"
proof -
  have n: "normalize_phone_number None = None" "normalize_phone_number (Some '''') = Some ''''"
    by (simp_all add: normalize_phone_number_def)
  have v: "\<exists>msg. validate_phone_number '''' = Inl (ValidationError msg)"
    by (simp add: validate_phone_number_def str_isdigit_def)
  have s: "\<exists>c'. Contact_save rows c = Inr (c', rows @ [c'])
                \<and> contact_phone_number c' = Some ''''
                \<and> find_by_phone (rows @ [c']) (Some '''') = Inr (Some c')"
    if h: "contact_phone_number c = Some ''''" "contact_pk c = None"
      "\<not> list_ex (\<lambda>r. contact_phone_number r = Some '''') rows"
  proof -
    have f: "filter (\<lambda>r. contact_phone_number r = Some '''') rows = []"
      using h(3) by (simp add: list_ex_iff filter_empty_conv)
    have e: "\<not> list_ex (\<lambda>r. contact_phone_number r = Some '''' \<and> contact_pk r \<noteq> None) rows"
      using h(3) by (auto simp add: list_ex_iff)
    show ?thesis
      using h(1,2) f e
      by (simp add: Contact_save_def Model_save_contact_def n Let_def find_by_phone_def
          Contact_objects_get_def)
  qed
  show ?thesis using n v s by blast
qed

theorem normalize_phone_number_falsy_unchanged_witness:
  "Contact_save [] \<lparr>contact_pk = None, contact_name = ''Ana'',
       contact_phone_number = Some '''', whatsapp_chat_id = None\<rparr>
     = Inr (\<lparr>contact_pk = Some 1, contact_name = ''Ana'',
              contact_phone_number = Some '''', whatsapp_chat_id = None\<rparr>,
            [\<lparr>contact_pk = Some 1, contact_name = ''Ana'',
              contact_phone_number = Some '''', whatsapp_chat_id = None\<rparr>])
   \<and> find_by_phone [\<lparr>contact_pk = Some 1, contact_name = ''Ana'',
              contact_phone_number = Some '''', whatsapp_chat_id = None\<rparr>] (Some '''')
     = Inr (Some \<lparr>contact_pk = Some 1, contact_name = ''Ana'',
              contact_phone_number = Some '''', whatsapp_chat_id = None\<rparr>)"
  using normalize_phone_number_falsy_unchanged
    [of "\<lparr>contact_pk = None, contact_name = ''Ana'',
       contact_phone_number = Some '''', whatsapp_chat_id = None\<rparr>" "[]"]
  by (auto simp add: Contact_save_def Model_save_contact_def normalize_phone_number_def fresh_contact_pk_def Let_def)


section \<open>Properties of services/waha.py\<close>

lemma make_request_uniform:
  assumes m: "method = ''POST'' \<or> method = ''PUT''"
  shows "\<exists>j w' req. make_request net self endpoint method data w = (Inr j, w')
           \<and> http_log w' = http_log w @ [req]
           \<and> uniform_failure net req j"
proof -
  define req where "req = \<lparr>req_method = method, req_url = ws_endpoint self @ ''/api/'' @ endpoint,
      req_headers = [(''Content-Type'', ''application/json''),
                     (''Authorization'', get_auth_header self)], req_json = data\<rparr>"
  define w1 where "w1 = w\<lparr>http_log := http_log w @ [req]\<rparr>"
  have call: "make_request net self endpoint method data w =
     (case (case (net req, w1) of
               (Inl e, w1) \<Rightarrow> (Inl e, w1)
             | (Inr response, w1) \<Rightarrow>
                 if status_code response = 200 \<or> status_code response = 201 then
                   (resp_json response, w1)
                 else
                   (Inr (failure_result (''HTTP '' @ str_of_nat (status_code response) @ '': ''
                                          @ resp_text response)),
                    logger ERROR ''WAHA API error: '' w1)) of
           (Inl e, w2) \<Rightarrow>
             (Inr (failure_result (str_of_exn e)),
              logger ERROR ''Error making WAHA API request: '' w2)
         | (Inr j, w2) \<Rightarrow> (Inr j, w2))"
    using m unfolding make_request_def requests_call_def req_def w1_def Let_def by auto
  have l1: "http_log w1 = http_log w @ [req]"
    and l2: "http_log (logger lvl msg w1) = http_log w @ [req]" for lvl msg
    by (simp_all add: w1_def logger_def)
  have "\<exists>j w'. make_request net self endpoint method data w = (Inr j, w')
           \<and> http_log w' = http_log w @ [req] \<and> uniform_failure net req j"
  proof (cases "net req")
    case (Inl e)
    then show ?thesis by (simp add: call l2 uniform_failure_def)
  next
    case (Inr r)
    show ?thesis
    proof (cases "status_code r = 200 \<or> status_code r = 201")
      case True
      then show ?thesis using Inr
        by (cases "resp_json r") (auto simp add: call l1 l2 uniform_failure_def)
    next
      case False
      then show ?thesis using Inr by (simp add: call l2 uniform_failure_def)
    qed
  qed
  then show ?thesis by blast
qed

text \<open>
  Claim C9.  Each of the six requests of the WAHA client returns a value and never an
  exception, after issuing exactly one HTTP request; when the network answers that
  request with an exception, or with a status outside 200..299, the value is the
  dictionary with \<open>success\<close> false and \<open>error\<close> the reason (the text of the exception,
  or \<open>HTTP\<close>, the status and the body).
\<close>

theorem waha_requests_fail_uniformly:
  "(\<exists>j w' req. send_text net self chat_id txt link_preview w = (Inr j, w')
       \<and> http_log w' = http_log w @ [req] \<and> uniform_failure net req j)
   \<and> (\<exists>j w' req. send_image net self chat_id url caption w = (Inr j, w')
       \<and> http_log w' = http_log w @ [req] \<and> uniform_failure net req j)
   \<and> (\<exists>j w' req. send_document net self chat_id url filename w = (Inr j, w')
       \<and> http_log w' = http_log w @ [req] \<and> uniform_failure net req j)
   \<and> (\<exists>j w' req. send_video net self chat_id url caption w = (Inr j, w')
       \<and> http_log w' = http_log w @ [req] \<and> uniform_failure net req j)
   \<and> (\<exists>j w' req. send_audio net self chat_id url w = (Inr j, w')
       \<and> http_log w' = http_log w @ [req] \<and> uniform_failure net req j)
   \<and> (\<exists>j w' req. configure_webhooks net self webhook_url events w = (Inr j, w')
       \<and> http_log w' = http_log w @ [req] \<and> uniform_failure net req j)"
  unfolding send_text_def send_image_def send_document_def send_video_def send_audio_def
    configure_webhooks_def Let_def
  by (intro conjI make_request_uniform) simp_all

theorem waha_requests_fail_uniformly_witness:
  "(\<exists>w'. send_text net_server_error example_waha_service ''+40 777 777 777'' ''hello'' True
            example_world
          = (Inr (JDict [(''success'', JBool False),
                         (''error'', JStr ''HTTP 500: Internal Server Error'')]), w'))
   \<and> (\<exists>w'. configure_webhooks net_unreachable example_waha_service ''https://app/hook'' None
            example_world
          = (Inr (JDict [(''success'', JBool False),
                         (''error'', JStr ''connection refused'')]), w'))"
proof -
  have n: "str_of_nat 500 = ''500''"
    by code_simp
  have a: "\<exists>w'. send_text net_server_error example_waha_service ''+40 777 777 777'' ''hello'' True
            example_world
          = (Inr (JDict [(''success'', JBool False),
                         (''error'', JStr ''HTTP 500: Internal Server Error'')]), w')"
    using waha_requests_fail_uniformly [of net_server_error example_waha_service
        "''+40 777 777 777''" "''hello''" True example_world "''http://files/a.png''" None None
        "''https://app/hook''" None]
    by (auto simp add: uniform_failure_def net_server_error_def failure_result_def n)
  have b: "\<exists>w'. configure_webhooks net_unreachable example_waha_service ''https://app/hook'' None
            example_world
          = (Inr (JDict [(''success'', JBool False),
                         (''error'', JStr ''connection refused'')]), w')"
    using waha_requests_fail_uniformly [of net_unreachable example_waha_service
        "''+40 777 777 777''" "''hello''" True example_world "''http://files/a.png''" None None
        "''https://app/hook''" None]
    by (auto simp add: uniform_failure_def net_unreachable_def failure_result_def)
  show ?thesis using a b by blast
qed


section \<open>Properties of the dispatch path\<close>












section \<open>Properties of views/official\_api\_webhook.py\<close>









lemmas example_status_defs = example_read_message_def example_delivered_update_def
  example_status_world_def example_message_def example_official_number_def utc_fromtimestamp_def

lemmas status_defs = process_status_update_def Message_objects_get_def status_timestamp_def
  status_conversation_def status_pricing_def status_errors_def status_update_fields_def
  set_metadata_def save_update_fields_def copy_field_def logger_def dict_get_def bind_exn_def
  int_of_str_def py_strip_def py_isspace_def ascii_digit_def int_of_digits_def opt_truthy_def
  Let_def




text \<open>
  Claim C8.  When the id of a status update matches no stored message, processing it
  raises nothing and changes nothing but the log, which gets one entry, a warning.
\<close>

theorem unknown_status_update_is_noop:
  assumes "\<not> list_ex (\<lambda>row. Some (message_id row) = char_value (dict_get status_data ''id'' JNull))
               (messages w)"
  shows "\<exists>text. process_status_update fromtimestamp pn status_data w
                  = (Inr (), w\<lparr>logs := logs w @ [(WARNING, text)]\<rparr>)"
proof -
  have "filter (\<lambda>row. Some (message_id row) = char_value (dict_get status_data ''id'' JNull))
          (messages w) = []"
    using assms by (simp add: list_ex_iff filter_empty_conv)
  then show ?thesis
    by (auto simp add: process_status_update_def Message_objects_get_def logger_def Let_def)
qed

theorem unknown_status_update_is_noop_witness:
  "process_status_update utc_fromtimestamp example_official_number
       [(''id'', JStr ''wamid.unknown''), (''status'', JStr ''delivered''),
        (''timestamp'', JStr ''1700000030'')] example_status_world
     = (Inr (), example_status_world\<lparr>logs := [(WARNING, ''Message not found for status update: '')]\<rparr>)"
  using unknown_status_update_is_noop [of "[(''id'', JStr ''wamid.unknown''),
        (''status'', JStr ''delivered''), (''timestamp'', JStr ''1700000030'')]"
      example_status_world utc_fromtimestamp example_official_number]
  by (simp add: example_status_defs status_defs)

text \<open>
  Claim C7.  For a GET request whose webhook token selects one official phone number,
  the reply is the challenge with status 200 when \<open>hub.verify_token\<close> is that number's
  verify token and \<open>hub.mode\<close> is \<open>subscribe\<close>, and a reply with status 403 in every
  other case; so the challenge is echoed with 200 exactly in the first case.
\<close>

theorem webhook_verification_handshake:
  assumes "PhoneNumber_objects_get_official phone_numbers token = Inr pn"
    and "rq_method request = ''GET''"
  shows "\<exists>reply w'. webhook json_loads process_webhook_data phone_numbers request token w
                      = (Inr reply, w')
           \<and> (if rq_GET request ''hub.verify_token'' = Some (verify_token pn)
                  \<and> rq_GET request ''hub.mode'' = Some ''subscribe''
               then reply = \<lparr>reply_status = 200,
                              reply_content = fmt_opt (rq_GET request ''hub.challenge'')\<rparr>
               else reply_status reply = 403)"
  using assms by (simp add: webhook_def Let_def)

theorem webhook_verification_handshake_witness:
  "(\<exists>w'. webhook example_json_loads example_process_webhook_data [example_waha_number, example_official_number]
            example_verification_request ''hook-1'' example_world
          = (Inr \<lparr>reply_status = 200, reply_content = ''1158201444''\<rparr>, w'))
   \<and> (\<exists>reply w'. webhook example_json_loads example_process_webhook_data [example_waha_number, example_official_number]
            (example_verification_request\<lparr>rq_GET := [''hub.mode'' \<mapsto> ''subscribe'',
               ''hub.verify_token'' \<mapsto> ''guess'', ''hub.challenge'' \<mapsto> ''1158201444'']\<rparr>)
            ''hook-1'' example_world
          = (Inr reply, w') \<and> reply_status reply = 403)"
proof -
  have g: "PhoneNumber_objects_get_official [example_waha_number, example_official_number] ''hook-1''
           = Inr example_official_number"
    by (simp add: PhoneNumber_objects_get_official_def example_waha_number_def
        example_official_number_def)
  have a: "\<exists>w'. webhook example_json_loads example_process_webhook_data [example_waha_number, example_official_number]
            example_verification_request ''hook-1'' example_world
          = (Inr \<lparr>reply_status = 200, reply_content = ''1158201444''\<rparr>, w')"
    using webhook_verification_handshake [OF g, of example_verification_request
        example_json_loads example_process_webhook_data example_world]
    by (simp add: example_verification_request_def example_official_number_def fmt_opt_def)
  have b: "\<exists>reply w'. webhook example_json_loads example_process_webhook_data [example_waha_number, example_official_number]
            (example_verification_request\<lparr>rq_GET := [''hub.mode'' \<mapsto> ''subscribe'',
               ''hub.verify_token'' \<mapsto> ''guess'', ''hub.challenge'' \<mapsto> ''1158201444'']\<rparr>)
            ''hook-1'' example_world
          = (Inr reply, w') \<and> reply_status reply = 403"
    using webhook_verification_handshake [OF g, of "example_verification_request\<lparr>rq_GET :=
         [''hub.mode'' \<mapsto> ''subscribe'',
               ''hub.verify_token'' \<mapsto> ''guess'', ''hub.challenge'' \<mapsto> ''1158201444'']\<rparr>"
        example_json_loads example_process_webhook_data example_world]
    by (simp add: example_verification_request_def example_official_number_def)
  show ?thesis using a b by blast
qed


section \<open>Properties of views/waha\_webhook.py\<close>

lemma download_media_try_messages:
  assumes "download_media_try net pn mid media_info url filename w = (r, w1)"
  shows "messages w1 = messages w"
  using assms
  by (auto simp add: download_media_try_def requests_call_def logger_def Let_def
      split: sum.splits prod.splits if_splits)

lemma media_block_messages:
  assumes "media_block net pn md mid body w = (r, w1)"
  shows "messages w1 = messages w"
  using assms
  by (auto simp add: media_block_def logger_def Let_def
      split: sum.splits prod.splits if_splits dest: download_media_try_messages)

lemma resolve_contact_messages:
  assumes "resolve_contact md fn d w = (r, w1)"
  shows "messages w1 = messages w"
  using assms
  by (auto simp add: resolve_contact_def logger_def Let_def
      split: sum.splits prod.splits if_splits option.splits exn.splits)

lemma Message_objects_create_rows:
  assumes "Message_objects_create pn c mid fn tn d mt body media st raw w = (r, w1)"
  shows "(\<exists>e. r = Inl e \<and> messages w1 = messages w)
         \<or> (\<exists>row. r = Inr row \<and> messages w1 = messages w @ [row]
               \<and> direction row = d \<and> status row = st
               \<and> Some (from_number row) = fn \<and> Some (to_number row) = tn
               \<and> msg_pk row = fresh_message_pk (messages w))"
  using assms
  by (auto simp add: Message_objects_create_def Let_def split: if_splits)

lemma send_outgoing_message_not_pending:
  assumes "status m \<noteq> ''pending''"
  shows "send_outgoing_message net url pn m created w = (Inr (), m, w)"
  using assms by (simp add: send_outgoing_message_def)

lemma media_file_save_rows:
  assumes "media_file_save storage filename m w = (r, w1)"
  shows "(\<exists>e. r = Inl e \<and> messages w1 = messages w)
         \<or> (\<exists>u. r = Inr (m\<lparr>media_file_url := u\<rparr>)
               \<and> messages w1 = map (\<lambda>row. if msg_pk row = msg_pk m then m\<lparr>media_file_url := u\<rparr> else row)
                                  (messages w))"
  using assms
  by (auto simp add: media_file_save_def Let_def split: json.splits)


lemma fold_max_ge: "(a::nat) \<le> fold max xs a"
proof (induction xs arbitrary: a)
  case Nil
  show ?case by simp
next
  case (Cons x xs)
  have "a \<le> max x a" by simp
  also have "max x a \<le> fold max xs (max x a)" by (rule Cons.IH)
  finally show ?case by simp
qed

lemma fold_max_upper: "x \<in> set xs \<Longrightarrow> (x::nat) \<le> fold max xs a"
proof (induction xs arbitrary: a)
  case Nil
  then show ?case by simp
next
  case (Cons y ys)
  show ?case
  proof (cases "x = y")
    case True
    have "x \<le> max x a" by simp
    also have "max x a \<le> fold max ys (max x a)" by (rule fold_max_ge)
    finally show ?thesis using True by simp
  next
    case False
    then have "x \<in> set ys" using Cons.prems by simp
    then show ?thesis using Cons.IH by simp
  qed
qed

lemma fresh_message_pk_new:
  assumes "row \<in> set rows"
  shows "msg_pk row \<noteq> fresh_message_pk rows"
proof -
  have "msg_pk row \<le> fold max (map msg_pk rows) 0"
    using assms by (intro fold_max_upper) simp
  then show ?thesis by (simp add: fresh_message_pk_def)
qed

lemma handle_incoming_message_try_rows:
  assumes p: "ev_payload payload = Val message_data"
    and f: "md_fromMe message_data = Val True"
    and t: "handle_incoming_message_try net url fromtimestamp now storage_url payload pn w = (r, w')"
  shows "(\<exists>e. r = Inl e \<and> messages w' = messages w)
         \<or> (\<exists>row. messages w' = messages w @ [row]
               \<and> direction row = ''outgoing'' \<and> status row = ''sent''
               \<and> Some (from_number row)
                   = (if opt_truthy (field_get (md_to message_data))
                      then field_get (md_to message_data)
                      else (case ev_me payload of Val me \<Rightarrow> field_get (me_id me) | _ \<Rightarrow> None))
               \<and> Some (to_number row) = field_get (md_from message_data))"
proof -
  let ?to = "if opt_truthy (field_get (md_to message_data))
                      then field_get (md_to message_data)
                      else (case ev_me payload of Val me \<Rightarrow> field_get (me_id me) | _ \<Rightarrow> None)"
  let ?from = "field_get (md_from message_data)"
  obtain r1 w1 where mb: "media_block net pn message_data (field_get (md_id message_data))
      (field_get_default (md_body message_data) []) w = (r1, w1)"
    by (metis surj_pair)
  have m1: "messages w1 = messages w"
    using mb by (rule media_block_messages)
  show ?thesis
  proof (cases "\<not> opt_truthy (field_get (md_to message_data)) \<and> ev_me payload = Null")
    case True
    then show ?thesis using p f t
      by (auto simp add: handle_incoming_message_try_def field_get_default_def bind_exn_def)
  next
    case False
    then have to0: "(if opt_truthy (field_get (md_to message_data))
                   then Inr (field_get (md_to message_data))
                   else (case field_get_default (ev_me payload) \<lparr>me_id = Absent\<rparr> of
                           None \<Rightarrow> Inl (AttributeError ''NoneType object has no attribute get'')
                         | Some me \<Rightarrow> Inr (field_get (me_id me)))) = Inr ?to"
      by (cases "ev_me payload") (auto simp add: field_get_default_def field_get_def)
    show ?thesis
    proof (cases r1)
      case (Inl e)
      then show ?thesis using p f t mb m1 to0
        by (auto simp add: handle_incoming_message_try_def field_get_default_def bind_exn_def Let_def)
    next
      case (Inr x)
      then obtain tb filename downloaded where r1: "r1 = Inr (tb, filename, downloaded)"
        by (metis prod_cases3)
      show ?thesis
      proof (cases "bind_exn (location_block message_data tb) (\<lambda>tb1.
                          let tb2 = vcards_block message_data tb1
                          in bind_exn (reply_block message_data) (\<lambda>_. Inr tb2))")
        case (Inl e)
        then show ?thesis using p f t mb m1 to0 r1
          by (auto simp add: handle_incoming_message_try_def field_get_default_def bind_exn_def Let_def)
      next
        case (Inr tb')
        obtain mtype mbody where tb': "tb' = (mtype, mbody)" by (metis surj_pair)
        obtain r2 w2 where rc: "resolve_contact message_data ?to ''outgoing''
            (logger INFO ''Received message from '' w1) = (r2, w2)"
          by (metis surj_pair)
        have m2: "messages w2 = messages w"
          using resolve_contact_messages [OF rc] m1 by (simp add: logger_def)
        show ?thesis
        proof (cases r2)
          case (Inl e)
          then show ?thesis using p f t mb to0 r1 Inr tb' rc m2
            by (auto simp add: handle_incoming_message_try_def field_get_default_def
                bind_exn_def Let_def)
        next
          case c: (Inr contact)
          show ?thesis
          proof (cases "message_timestamp fromtimestamp now message_data")
            case (Inl e)
            then show ?thesis using p f t mb to0 r1 Inr tb' rc m2 c
              by (auto simp add: handle_incoming_message_try_def field_get_default_def
                  bind_exn_def Let_def)
          next
            case ts: (Inr timestamp)
            obtain r3 w3 where cr: "Message_objects_create pn contact (field_get (md_id message_data))
                ?to ?from ''outgoing'' mtype mbody None ''sent'' (JStr (md_raw message_data)) w2
                = (r3, w3)"
              by (metis surj_pair)
            from Message_objects_create_rows [OF cr] show ?thesis
            proof (elim disjE exE conjE)
              fix e assume "r3 = Inl e" "messages w3 = messages w2"
              then show ?thesis using p f t mb to0 r1 Inr tb' rc m2 c ts cr
                by (auto simp add: handle_incoming_message_try_def field_get_default_def
                    bind_exn_def Let_def)
            next
              fix row
              assume row: "r3 = Inr row" "messages w3 = messages w2 @ [row]"
                "direction row = ''outgoing''" "status row = ''sent''"
                "Some (from_number row) = ?to" "Some (to_number row) = ?from"
                "msg_pk row = fresh_message_pk (messages w2)"
              have so: "send_outgoing_message net url pn row True w3 = (Inr (), row, w3)"
                using row(4) by (intro send_outgoing_message_not_pending) simp
              show ?thesis
              proof (cases "downloaded \<noteq> None \<and> truthy filename")
                case False
                then have "r = Inr \<lparr>jr_status = 200,
                      jr_body = JDict [(''status'', JStr ''success''),
                         (''message'', JStr ''Message received and saved''),
                         (''message_id'', JStr (message_id row)),
                         (''message_type'', JStr mtype),
                         (''db_id'', JInt (int (msg_pk row)))]\<rparr>
                    \<and> w' = logger INFO ''Saved message to database with ID: '' w3"
                  using p f t mb to0 r1 Inr tb' rc c ts cr row(1) so
                  by (auto simp add: handle_incoming_message_try_def field_get_default_def
                      bind_exn_def Let_def)
                then show ?thesis using row m2 by (auto simp add: logger_def)
              next
                case True
                obtain r4 w4 where ms: "media_file_save storage_url filename row w3 = (r4, w4)"
                  by (metis surj_pair)
                from media_file_save_rows [OF ms] show ?thesis
                proof (elim disjE exE conjE)
                  fix e assume "r4 = Inl e" "messages w4 = messages w3"
                  then have "r = Inl e \<and> w' = w4"
                    using p f t mb to0 r1 Inr tb' rc c ts cr row(1) so True ms
                    by (auto simp add: handle_incoming_message_try_def field_get_default_def
                        bind_exn_def Let_def)
                  then show ?thesis
                    using row m2 \<open>messages w4 = messages w3\<close> by auto
                next
                  fix u
                  assume r4: "r4 = Inr (row\<lparr>media_file_url := u\<rparr>)"
                    and m4: "messages w4 = map (\<lambda>x. if msg_pk x = msg_pk row
                                then row\<lparr>media_file_url := u\<rparr> else x) (messages w3)"
                  have old: "map (\<lambda>x. if msg_pk x = msg_pk row
                                then row\<lparr>media_file_url := u\<rparr> else x) (messages w) = messages w"
                    using fresh_message_pk_new [of _ "messages w"] row(7) [unfolded m2]
                    by (intro map_idI) auto
                  have m4': "messages w4 = messages w @ [row\<lparr>media_file_url := u\<rparr>]"
                    by (simp add: m4 row(2) m2 old)
                  have "w' = logger INFO ''Saved message to database with ID: ''
                               (logger INFO ''Saved media file to message ID: '' w4)"
                    using p f t mb to0 r1 Inr tb' rc c ts cr row(1) so True ms r4
                    by (auto simp add: handle_incoming_message_try_def field_get_default_def
                        bind_exn_def Let_def)
                  then have "messages w' = messages w @ [row\<lparr>media_file_url := u\<rparr>]"
                    by (simp add: logger_def m4')
                  then show ?thesis using row by auto
                qed
              qed
            qed
          qed
        qed
      qed
    qed
  qed
qed


text \<open>
  Claim C4.  For a WAHA message event with \<open>fromMe\<close> true, the handler either
  persists nothing and answers 500, or persists exactly one new message, and that
  message has direction \<open>outgoing\<close>, status \<open>sent\<close>, as \<open>to_number\<close> the raw \<open>from\<close>
  field, and as \<open>from_number\<close> the raw \<open>to\<close> field, or \<open>me.id\<close> when \<open>to\<close> is
  missing (absent, null or empty).  In particular every answer with status 200 comes
  with such a message.
\<close>

theorem waha_echo_persisted_outgoing:
  assumes "ev_payload payload = Val message_data"
    and "md_fromMe message_data = Val True"
    and "handle_incoming_message net url fromtimestamp now storage_url payload pn w = (reply, w')"
  shows "(jr_status reply = 500 \<and> messages w' = messages w)
         \<or> (\<exists>row. messages w' = messages w @ [row]
               \<and> direction row = ''outgoing'' \<and> status row = ''sent''
               \<and> Some (from_number row)
                   = (if opt_truthy (field_get (md_to message_data))
                      then field_get (md_to message_data)
                      else (case ev_me payload of Val me \<Rightarrow> field_get (me_id me) | _ \<Rightarrow> None))
               \<and> Some (to_number row) = field_get (md_from message_data))"
proof -
  obtain r w1 where t: "handle_incoming_message_try net url fromtimestamp now storage_url
      payload pn w = (r, w1)"
    by (metis surj_pair)
  have w': "messages w' = messages w1"
    using assms(3) t by (cases r) (auto simp add: handle_incoming_message_def logger_def)
  have st: "jr_status reply = 500" if "r = Inl e" for e
    using assms(3) t that by (auto simp add: handle_incoming_message_def)
  from handle_incoming_message_try_rows [OF assms(1,2) t] show ?thesis
    using w' st by auto
qed

lemmas waha_handler_defs = handle_incoming_message_def handle_incoming_message_try_def
  media_block_def location_block_def vcards_block_def reply_block_def resolve_contact_def
  Contact_objects_get_def message_timestamp_def Message_objects_create_def
  fresh_message_pk_def send_outgoing_message_def field_get_def field_get_default_def
  bind_exn_def opt_truthy_def logger_def split_first_def Let_def

lemmas waha_example_defs = example_echo_event_def example_echo_data_def example_waha_number_def
  example_world_def example_message_def example_template_message_def utc_fromtimestamp_def

theorem waha_echo_persisted_outgoing_witness:
  "(\<exists>row. messages (snd (handle_incoming_message net_unreachable ''https://graph.facebook.com/v22.0''
                   utc_fromtimestamp 1700000200 example_storage_url example_echo_event
                   example_waha_number example_world))
           = messages example_world @ [row]
         \<and> direction row = ''outgoing'' \<and> status row = ''sent''
         \<and> from_number row = ''40777777777@c.us'' \<and> to_number row = ''40711111111@c.us'')
   \<and> (\<exists>row. messages (snd (handle_incoming_message net_unreachable ''https://graph.facebook.com/v22.0''
                   utc_fromtimestamp 1700000200 example_storage_url example_echo_event_without_to
                   example_waha_number example_world))
           = messages example_world @ [row]
         \<and> direction row = ''outgoing'' \<and> status row = ''sent''
         \<and> from_number row = ''40711111111@c.us'' \<and> to_number row = ''40711111111@c.us'')"
proof -
  have p: "ev_payload example_echo_event = Val example_echo_data"
    by (simp add: example_echo_event_def)
  have f: "md_fromMe example_echo_data = Val True"
    by (simp add: example_echo_data_def)
  have ok: "jr_status (fst (handle_incoming_message net_unreachable
      ''https://graph.facebook.com/v22.0'' utc_fromtimestamp 1700000200 example_storage_url
      example_echo_event example_waha_number example_world)) = 200"
    by (simp add: waha_handler_defs waha_example_defs)
  have fields: "field_get (md_to example_echo_data) = Some ''40777777777@c.us''"
    "field_get (md_from example_echo_data) = Some ''40711111111@c.us''"
    by (simp_all add: example_echo_data_def field_get_def)
  have a: "\<exists>row. messages (snd (handle_incoming_message net_unreachable
                   ''https://graph.facebook.com/v22.0''
                   utc_fromtimestamp 1700000200 example_storage_url example_echo_event
                   example_waha_number example_world))
           = messages example_world @ [row]
         \<and> direction row = ''outgoing'' \<and> status row = ''sent''
         \<and> from_number row = ''40777777777@c.us'' \<and> to_number row = ''40711111111@c.us''"
    using waha_echo_persisted_outgoing [OF p f surjective_pairing, of net_unreachable
        "''https://graph.facebook.com/v22.0''" utc_fromtimestamp 1700000200 example_storage_url
        example_waha_number example_world] ok
    by (simp add: fields opt_truthy_def)
  have p': "ev_payload example_echo_event_without_to = Val example_echo_data_without_to"
    by (simp add: example_echo_event_without_to_def)
  have f': "md_fromMe example_echo_data_without_to = Val True"
    by (simp add: example_echo_data_without_to_def example_echo_data_def)
  have ok': "jr_status (fst (handle_incoming_message net_unreachable
      ''https://graph.facebook.com/v22.0'' utc_fromtimestamp 1700000200 example_storage_url
      example_echo_event_without_to example_waha_number example_world)) = 200"
    by (simp add: waha_handler_defs waha_example_defs example_echo_event_without_to_def
        example_echo_data_without_to_def)
  have fields': "field_get (md_to example_echo_data_without_to) = None"
    "field_get (md_from example_echo_data_without_to) = Some ''40711111111@c.us''"
    "(case ev_me example_echo_event_without_to of Val me \<Rightarrow> field_get (me_id me) | _ \<Rightarrow> None)
       = Some ''40711111111@c.us''"
    by (simp_all add: example_echo_data_def field_get_def example_echo_event_without_to_def
        example_echo_data_without_to_def example_echo_event_def)
  have b: "\<exists>row. messages (snd (handle_incoming_message net_unreachable
                   ''https://graph.facebook.com/v22.0''
                   utc_fromtimestamp 1700000200 example_storage_url example_echo_event_without_to
                   example_waha_number example_world))
           = messages example_world @ [row]
         \<and> direction row = ''outgoing'' \<and> status row = ''sent''
         \<and> from_number row = ''40711111111@c.us'' \<and> to_number row = ''40711111111@c.us''"
    using waha_echo_persisted_outgoing [OF p' f' surjective_pairing, of net_unreachable
        "''https://graph.facebook.com/v22.0''" utc_fromtimestamp 1700000200 example_storage_url
        example_waha_number example_world] ok'
    by (simp add: fields' opt_truthy_def)
  show ?thesis using a b by blast
qed

end
